theory Spec2Isabelle
  imports Complex_Main
begin

section \<open>Data model of LayeredBeam\<close>

text \<open>
  The material class \<open>LayeredBeam\<close> (src/materials/LayeredBeam.C) is embedded as pure
  functions over explicit state.  Its members are read off the initialiser list of the
  constructor and the header of the sibling class (include/materials/PlasticBeam.h),
  which declares the same members apart from the per-layer vectors.
  The C++ type \<open>Real\<close> is read as the mathematical reals, so every statement below is
  about the algorithm in exact arithmetic.  Where the outcome of a division by zero
  decides a branch (the relative convergence test) the IEEE outcome is written out.
\<close>

type_synonym Point = "real \<times> real \<times> real"

text \<open>A framework \<open>Function\<close> object: \<open>value(t, p)\<close> and \<open>timeDerivative(t, p)\<close>.\<close>

record Function =
  fn_value :: "real \<Rightarrow> Point \<Rightarrow> real"
  fn_timeDerivative :: "real \<Rightarrow> Point \<Rightarrow> real"

text \<open>
  The two ways the class fails: \<open>mooseError\<close> (fatal, raised by the constructor) and the
  thrown \<open>MooseException\<close> of the plasticity solve.
\<close>

datatype config_error =
    CountMismatch           \<comment> \<open>'displacements' and 'rotations' must match\<close>
  | AsymmetricLargeStrain   \<comment> \<open>large strain with non-zero first moments of area\<close>

datatype error =
    mooseError config_error
  | MooseException          \<comment> \<open>"LayeredBeam: Plasticity model did not converge"\<close>

text \<open>
  The members of the object that are fixed by the constructor.  A \<open>VariableValue\<close> is
  indexed by quadrature point, hence a function of \<open>nat\<close>.
\<close>

record beam =
  has_Ix :: bool
  nlayers :: nat
  area :: "nat \<Rightarrow> real"
  width :: real
  depth :: real
  Ay :: "nat \<Rightarrow> real"
  Az :: "nat \<Rightarrow> real"
  Iy :: "nat \<Rightarrow> real"
  Iz :: "nat \<Rightarrow> real"
  Ix :: "nat \<Rightarrow> real"
  large_strain :: bool
  prefactor_function :: "Function option"
  yield_stress :: real
  hardening_constant :: real
  hardening_function :: "Function option"
  absolute_tolerance :: real
  relative_tolerance :: real
  max_its :: nat

text \<open>
  The per-layer stateful properties at one quadrature point.  The source keeps one
  material property per layer (\<open>direct_stress0\<close>, \<open>direct_stress1\<close>, ...), collected in
  vectors that the constructor resizes to \<open>nlayers\<close>; entry \<open>i\<close> is the property of
  layer \<open>i\<close>.  One value of this record is the old (read-only) state, another the
  current one that the call writes.
\<close>

record props =
  direct_stress :: "nat \<Rightarrow> real"
  plastic_strain :: "nat \<Rightarrow> real"
  hardening_variable :: "nat \<Rightarrow> real"
  stres :: real

section \<open>Hardening law\<close>

text \<open>\<open>const Point p;\<close> is the origin.\<close>

definition origin :: Point where
  "origin = (0, 0, 0)"

definition computeHardeningValue :: "beam \<Rightarrow> props \<Rightarrow> real \<Rightarrow> nat \<Rightarrow> real" where
  "computeHardeningValue B old scalar j =
     (case hardening_function B of
        Some f \<Rightarrow> fn_value f (\<bar>plastic_strain old j\<bar> + scalar) origin - yield_stress B
      | None \<Rightarrow> hardening_variable old j + hardening_constant B * scalar)"

definition computeHardeningDerivative :: "beam \<Rightarrow> props \<Rightarrow> real \<Rightarrow> nat \<Rightarrow> real" where
  "computeHardeningDerivative B old scalar j =
     (case hardening_function B of
        Some f \<Rightarrow> fn_timeDerivative f \<bar>plastic_strain old j\<bar> origin
      | None \<Rightarrow> hardening_constant B)"

section \<open>The scalar Newton iteration of one layer\<close>

text \<open>The local variables of the \<open>while\<close> loop in \<open>computeQpStress\<close>.\<close>

record newton =
  hardening_variable_i :: real
  plastic_strain_increment :: real
  residual :: real
  reference_residual :: real
  iteration :: nat

text \<open>
  \<open>std::abs(residual / reference_residual) > _relative_tolerance\<close>.  For a zero
  denominator the double division gives an infinity when the residual is non-zero
  (which exceeds every finite tolerance) and NaN when it is zero (every comparison
  with NaN is false).
\<close>

definition relative_exceeded :: "real \<Rightarrow> real \<Rightarrow> real \<Rightarrow> bool" where
  "relative_exceeded r ref tol =
     (if ref = 0 then r \<noteq> 0 else \<bar>r / ref\<bar> > tol)"

text \<open>The loop condition, with the short-circuit order of the source.\<close>

definition loop_condition :: "beam \<Rightarrow> newton \<Rightarrow> bool" where
  "loop_condition B s =
     (\<bar>residual s\<bar> > absolute_tolerance B \<or>
      relative_exceeded (residual s) (reference_residual s) (relative_tolerance B))"

text \<open>
  One execution of the loop body, up to and including \<open>++iteration\<close>.  The division by
  \<open>modulus + slope\<close> is the division of the reals; the statements below that depend on
  its value assume a non-zero denominator.  Rounding is not modelled: in double
  arithmetic the residual can go on changing by one unit in the last place, above the
  absolute tolerance, until the throw; nothing below states that the iteration of a
  yielding layer converges.
\<close>

definition loop_body :: "beam \<Rightarrow> real \<Rightarrow> props \<Rightarrow> nat \<Rightarrow> real \<Rightarrow> newton \<Rightarrow> newton" where
  "loop_body B E old i trial_stress s =
     (let hv = computeHardeningValue B old (plastic_strain_increment s) i;
          hardening_slope = computeHardeningDerivative B old (plastic_strain_increment s) i;
          scalar = (\<bar>trial_stress\<bar> - hv - yield_stress B - E * plastic_strain_increment s) /
                   (E + hardening_slope);
          psi = plastic_strain_increment s + scalar
      in \<lparr> hardening_variable_i = hv,
           plastic_strain_increment = psi,
           residual = \<bar>trial_stress\<bar> - hv - yield_stress B - E * psi,
           reference_residual = \<bar>trial_stress\<bar> - E * psi,
           iteration = Suc (iteration s) \<rparr>)"

text \<open>
  The \<open>while\<close> loop.  It leaves by the failed condition (\<open>Inr\<close>) or by the throw after
  the increment of \<open>iteration\<close> (\<open>Inl\<close>).
\<close>

function newton_loop ::
  "beam \<Rightarrow> real \<Rightarrow> props \<Rightarrow> nat \<Rightarrow> real \<Rightarrow> newton \<Rightarrow> error + newton" where
  "newton_loop B E old i trial_stress s =
     (if loop_condition B s then
        (if iteration (loop_body B E old i trial_stress s) > max_its B
         then Inl MooseException
         else newton_loop B E old i trial_stress (loop_body B E old i trial_stress s))
      else Inr s)"
  by pat_completeness auto
termination
  by (relation "measure (\<lambda>(B, E, old, i, trial_stress, s). Suc (max_its B) - iteration s)")
     (auto simp: loop_body_def Let_def)

declare newton_loop.simps [simp del]

text \<open>The values of the locals on entry to the loop (\<open>plastic_strain_increment = 0\<close>).\<close>

definition newton_init :: "beam \<Rightarrow> real \<Rightarrow> props \<Rightarrow> nat \<Rightarrow> real \<Rightarrow> newton" where
  "newton_init B E old i trial_stress =
     \<lparr> hardening_variable_i = hardening_variable old i,
       plastic_strain_increment = 0,
       residual = \<bar>trial_stress\<bar> - hardening_variable old i - yield_stress B - E * 0,
       reference_residual = \<bar>trial_stress\<bar> - E * 0,
       iteration = 0 \<rparr>"

section \<open>Stress integration over the layers\<close>

text \<open>
  Modelled from the spec: \<open>MathUtils::sign\<close> is a function of the framework, whose
  source is not part of the repository; the specification applies \<open>sign(trial)\<close> to the
  increment.  It is taken as the framework has it, \<open>x >= 0.0 ? 1.0 : -1.0\<close>; nothing
  below depends on its value at 0.
\<close>

definition sign :: "real \<Rightarrow> real" where
  "sign x = (if x \<ge> 0 then 1 else -1)"

text \<open>The three properties that the loop body assigns for its layer.\<close>

record layer_values =
  new_direct_stress :: real
  new_plastic_strain :: real
  new_hardening_variable :: real

text \<open>
  The body of the \<open>for\<close> loop for layer \<open>i\<close>, from the trial stress to the value of
  \<open>direct_stress[i]\<close>; \<open>zmidl\<close> is the value after the first \<open>zmidl += thick/2.0\<close>.
\<close>

definition layer ::
  "beam \<Rightarrow> real \<Rightarrow> real \<Rightarrow> props \<Rightarrow> nat \<Rightarrow> real \<Rightarrow> error + layer_values" where
  "layer B E strain_increment old i zmidl =
     (let trial_stress = direct_stress old i + E * strain_increment * zmidl;
          yield_condition = \<bar>trial_stress\<bar> - hardening_variable old i - yield_stress B
      in if yield_condition > 0 then
           (case newton_loop B E old i trial_stress (newton_init B E old i trial_stress) of
              Inl e \<Rightarrow> Inl e
            | Inr s \<Rightarrow>
                (let psi = plastic_strain_increment s * sign trial_stress;
                     elastic_strain_increment = strain_increment * zmidl - psi
                 in Inr \<lparr> new_direct_stress = direct_stress old i + elastic_strain_increment * E,
                          new_plastic_strain = plastic_strain old i + psi,
                          new_hardening_variable = hardening_variable_i s \<rparr>))
         else
           Inr \<lparr> new_direct_stress = direct_stress old i + strain_increment * zmidl * E,
                  new_plastic_strain = plastic_strain old i,
                  new_hardening_variable = hardening_variable old i \<rparr>)"

text \<open>
  The \<open>for\<close> loop over the layers, entered with the loop variable \<open>i\<close>, the running
  \<open>zmidl\<close> and \<open>moment\<close>, and the current properties, in which it stores the values of
  each layer and the running moment (\<open>_stres[_qp] = moment\<close>).
\<close>

function layers_loop ::
  "beam \<Rightarrow> real \<Rightarrow> real \<Rightarrow> props \<Rightarrow> real \<Rightarrow> nat \<Rightarrow> real \<Rightarrow> real \<Rightarrow> props \<Rightarrow> error + props" where
  "layers_loop B E strain_increment old thick i zmidl moment cur =
     (if i < nlayers B then
        (case layer B E strain_increment old i (zmidl + thick / 2) of
           Inl e \<Rightarrow> Inl e
         | Inr v \<Rightarrow>
             layers_loop B E strain_increment old thick (Suc i) (zmidl + thick / 2 + thick / 2)
               (moment + new_direct_stress v * width B * (zmidl + thick / 2) * thick)
               (cur\<lparr> hardening_variable := (hardening_variable cur)(i := new_hardening_variable v),
                     plastic_strain := (plastic_strain cur)(i := new_plastic_strain v),
                     direct_stress := (direct_stress cur)(i := new_direct_stress v),
                     stres := moment + new_direct_stress v * width B * (zmidl + thick / 2) * thick \<rparr>))
      else Inr cur)"
  by pat_completeness auto
termination
  by (relation "measure (\<lambda>(B, E, strain_increment, old, thick, i, zmidl, moment, cur). nlayers B - i)")
     auto

declare layers_loop.simps [simp del]

text \<open>
  \<open>computeQpStress\<close>: \<open>strain_increment\<close> is \<open>_total_stretch[_qp]\<close> and \<open>E\<close> is
  \<open>_material_flexure[_qp](2)\<close>.
\<close>

definition computeQpStress :: "beam \<Rightarrow> real \<Rightarrow> real \<Rightarrow> props \<Rightarrow> props \<Rightarrow> error + props" where
  "computeQpStress B E strain_increment old cur =
     layers_loop B E strain_increment old (depth B / real (nlayers B)) 0 (- 0.5 * depth B) 0 cur"

section \<open>Strain kinematics\<close>

text \<open>\<open>RealVectorValue\<close> and \<open>RankTwoTensor\<close> (a triple of rows).\<close>

type_synonym RealVectorValue = "real \<times> real \<times> real"
type_synonym RankTwoTensor = "RealVectorValue \<times> RealVectorValue \<times> RealVectorValue"

fun vadd :: "RealVectorValue \<Rightarrow> RealVectorValue \<Rightarrow> RealVectorValue" where
  "vadd (a0, a1, a2) (b0, b1, b2) = (a0 + b0, a1 + b1, a2 + b2)"

fun vsub :: "RealVectorValue \<Rightarrow> RealVectorValue \<Rightarrow> RealVectorValue" where
  "vsub (a0, a1, a2) (b0, b1, b2) = (a0 - b0, a1 - b1, a2 - b2)"

fun smult :: "real \<Rightarrow> RealVectorValue \<Rightarrow> RealVectorValue" where
  "smult c (a0, a1, a2) = (c * a0, c * a1, c * a2)"

fun vscale :: "RealVectorValue \<Rightarrow> real \<Rightarrow> RealVectorValue" where
  "vscale (a0, a1, a2) c = (a0 * c, a1 * c, a2 * c)"

fun mat_vec :: "RankTwoTensor \<Rightarrow> RealVectorValue \<Rightarrow> RealVectorValue" where
  "mat_vec ((r00, r01, r02), (r10, r11, r12), (r20, r21, r22)) (v0, v1, v2) =
     (r00 * v0 + r01 * v1 + r02 * v2,
      r10 * v0 + r11 * v1 + r12 * v2,
      r20 * v0 + r21 * v1 + r22 * v2)"

fun transpose_t :: "RankTwoTensor \<Rightarrow> RankTwoTensor" where
  "transpose_t ((r00, r01, r02), (r10, r11, r12), (r20, r21, r22)) =
     ((r00, r10, r20), (r01, r11, r21), (r02, r12, r22))"

text \<open>
  What one call of \<open>computeQpStrain\<close> reads besides the constant members: the values
  that \<open>computeProperties\<close> has stored for the element (the entries \<open>[0]\<close> of
  \<open>_original_length\<close>, \<open>_total_rotation\<close> and \<open>_material_stiffness\<close>, the nodal increments
  \<open>_disp0\<close> .. \<open>_rot1\<close>), and the values at the quadrature point \<open>_qp\<close>.  An eigenstrain
  is the tuple (disp, disp old, rot, rot old) of its four properties at \<open>_qp\<close>.
\<close>

record qp_input =
  qp :: nat
  original_length :: real
  total_rotation :: RankTwoTensor
  disp0 :: RealVectorValue
  disp1 :: RealVectorValue
  rot0 :: RealVectorValue
  rot1 :: RealVectorValue
  material_stiffness :: RealVectorValue
  material_flexure :: RealVectorValue
  total_disp_strain_old :: RealVectorValue
  total_rot_strain_old :: RealVectorValue
  eigenstrains :: "(RealVectorValue \<times> RealVectorValue \<times> RealVectorValue \<times> RealVectorValue) list"
  cur_time :: real
  q_point :: Point
  old_props :: props
  cur_props :: props

text \<open>What the call writes.\<close>

record qp_output =
  grad_disp_0_local_t :: RealVectorValue
  grad_rot_0_local_t :: RealVectorValue
  avg_rot_local_t :: RealVectorValue
  total_stretch :: real
  new_props :: props
  mech_disp_strain_increment :: RealVectorValue
  mech_rot_strain_increment :: RealVectorValue
  total_disp_strain :: RealVectorValue
  total_rot_strain :: RealVectorValue
  effective_stiffness :: real

text \<open>Lines 315-324: the gradients and the average rotation in the local frame.\<close>

definition local_gradients ::
  "qp_input \<Rightarrow> RealVectorValue \<times> RealVectorValue \<times> RealVectorValue" where
  "local_gradients I =
     (let grad_disp_0 = smult (1 / original_length I) (vsub (disp1 I) (disp0 I));
          grad_rot_0 = smult (1 / original_length I) (vsub (rot1 I) (rot0 I));
          avg_rot = (case (rot0 I, rot1 I) of
                       ((a0, a1, a2), (b0, b1, b2)) \<Rightarrow>
                         (0.5 * (a0 + b0), 0.5 * (a1 + b1), 0.5 * (a2 + b2)))
      in (mat_vec (total_rotation I) grad_disp_0,
          mat_vec (total_rotation I) grad_rot_0,
          mat_vec (total_rotation I) avg_rot))"

text \<open>Lines 347-373: the small-strain increments (\<open>Iyz = 0\<close>).\<close>

definition small_strain ::
  "beam \<Rightarrow> nat \<Rightarrow> real \<Rightarrow> RealVectorValue \<Rightarrow> RealVectorValue \<Rightarrow> RealVectorValue \<Rightarrow>
   RealVectorValue \<times> RealVectorValue" where
  "small_strain B q Ix_q gd gr ar =
     (case (gd, gr, ar) of
        ((gd0, gd1, gd2), (gr0, gr1, gr2), (ar0, ar1, ar2)) \<Rightarrow>
          (let Iyz = 0 in
           ((gd0 * area B q - gr2 * Ay B q + gr1 * Az B q,
             - ar2 * area B q + gd1 * area B q - gr0 * Az B q,
             ar1 * area B q + gd2 * area B q + gr0 * Ay B q),
            (ar1 * Ay B q + gd2 * Ay B q + gr0 * Ix_q + ar2 * Az B q - gd1 * Az B q,
             gd0 * Az B q - gr2 * Iyz + gr1 * Iz B q,
             - gd0 * Ay B q + gr2 * Iy B q - gr1 * Iyz))))"

text \<open>Lines 375-400: the quadratic terms added when \<open>_large_strain\<close> is set.\<close>

definition large_strain_terms ::
  "beam \<Rightarrow> nat \<Rightarrow> real \<Rightarrow> RealVectorValue \<Rightarrow> RealVectorValue \<Rightarrow> RealVectorValue \<Rightarrow>
   RealVectorValue \<times> RealVectorValue" where
  "large_strain_terms B q Ix_q gd gr ar =
     (case (gd, gr, ar) of
        ((gd0, gd1, gd2), (gr0, gr1, gr2), (ar0, ar1, ar2)) \<Rightarrow>
          ((0.5 * ((gd0\<^sup>2 + gd1\<^sup>2 + gd2\<^sup>2) * area B q + gr2\<^sup>2 * Iy B q + gr1\<^sup>2 * Iz B q +
                   gr0\<^sup>2 * Ix_q),
            (- ar2 * gd0 + ar0 * gd2) * area B q,
            (ar1 * gd0 - ar0 * gd1) * area B q),
           (- ar1 * gr2 * Iy B q + ar2 * gr1 * Iz B q,
            (gd0 * gr1 - gd1 * gr0) * Iz B q,
            - (gd2 * gr0 - gd0 * gr2) * Iy B q)))"

text \<open>Lines 409-416: the eigenstrain increments are removed, one name after the other.\<close>

fun remove_eigenstrains ::
  "beam \<Rightarrow> qp_input \<Rightarrow>
   (RealVectorValue \<times> RealVectorValue \<times> RealVectorValue \<times> RealVectorValue) list \<Rightarrow>
   RealVectorValue \<times> RealVectorValue \<Rightarrow> RealVectorValue \<times> RealVectorValue" where
  "remove_eigenstrains B I [] (md, mr) = (md, mr)"
| "remove_eigenstrains B I ((de, de_old, re, re_old) # es) (md, mr) =
     remove_eigenstrains B I es
       (vsub md (vscale (mat_vec (total_rotation I) (vsub de de_old)) (area B (qp I))),
        vsub mr (mat_vec (total_rotation I) (vsub re re_old)))"

text \<open>Lines 418-428: the pseudo stiffness for the critical time step.\<close>

definition effective_stiffness_of :: "beam \<Rightarrow> qp_input \<Rightarrow> real" where
  "effective_stiffness_of B I =
     (let A_avg = (area B 0 + area B 1) / 2;
          Iz_avg = (Iz B 0 + Iz B 1) / 2;
          c1_paper = sqrt (fst (material_stiffness I));
          c2_paper = sqrt (fst (snd (material_stiffness I)));
          effec_stiff_1 = max c1_paper c2_paper;
          effec_stiff_2 = 2 / (c2_paper * sqrt (A_avg / Iz_avg));
          e = max effec_stiff_1 (original_length I / effec_stiff_2)
      in case prefactor_function B of
           Some f \<Rightarrow> e * sqrt (fn_value f (cur_time I) (q_point I))
         | None \<Rightarrow> e)"

text \<open>
  Lines 309-313 and 341-400: the strain increments integrated over the section, before
  the eigenstrains are removed.
\<close>

definition strain_increments :: "beam \<Rightarrow> qp_input \<Rightarrow> RealVectorValue \<times> RealVectorValue" where
  "strain_increments B I =
     (let Ix_q = (if has_Ix B then Ix B (qp I) else Iy B (qp I) + Iz B (qp I));
          (gd, gr, ar) = local_gradients I;
          (sd, sr) = small_strain B (qp I) Ix_q gd gr ar;
          (ld, lr) = large_strain_terms B (qp I) Ix_q gd gr ar
      in if large_strain B then (vadd sd ld, vadd sr lr) else (sd, sr))"

text \<open>
  \<open>computeQpStrain\<close>.  The call of \<open>computeQpStress\<close> (line 331) may throw, which ends
  the call.
\<close>

definition computeQpStrain :: "beam \<Rightarrow> qp_input \<Rightarrow> error + qp_output" where
  "computeQpStrain B I =
     (let (gd, gr, ar) = local_gradients I;
          stretch = snd (snd gr)
      in case computeQpStress B (snd (snd (material_flexure I))) stretch (old_props I) (cur_props I) of
           Inl e \<Rightarrow> Inl e
         | Inr P \<Rightarrow>
             (let (md, mr) = strain_increments B I;
                  (md', mr') = remove_eigenstrains B I (eigenstrains I) (md, mr)
              in Inr \<lparr> grad_disp_0_local_t = gd,
                       grad_rot_0_local_t = gr,
                       avg_rot_local_t = ar,
                       total_stretch = stretch,
                       new_props = P,
                       mech_disp_strain_increment = md',
                       mech_rot_strain_increment = mr',
                       total_disp_strain =
                         vadd (mat_vec (transpose_t (total_rotation I)) md) (total_disp_strain_old I),
                       total_rot_strain =
                         vadd (mat_vec (transpose_t (total_rotation I)) mr) (total_disp_strain_old I),
                       effective_stiffness = effective_stiffness_of B I \<rparr>))"

section \<open>Tangent stiffness\<close>

text \<open>Sums, multiples and products of \<open>RankTwoTensor\<close> values.\<close>

fun madd :: "RankTwoTensor \<Rightarrow> RankTwoTensor \<Rightarrow> RankTwoTensor" where
  "madd (a0, a1, a2) (b0, b1, b2) = (vadd a0 b0, vadd a1 b1, vadd a2 b2)"

fun mscale :: "real \<Rightarrow> RankTwoTensor \<Rightarrow> RankTwoTensor" where
  "mscale c (a0, a1, a2) = (smult c a0, smult c a1, smult c a2)"

fun vneg :: "RealVectorValue \<Rightarrow> RealVectorValue" where
  "vneg (a0, a1, a2) = (- a0, - a1, - a2)"

fun mneg :: "RankTwoTensor \<Rightarrow> RankTwoTensor" where
  "mneg (a0, a1, a2) = (vneg a0, vneg a1, vneg a2)"

fun msub :: "RankTwoTensor \<Rightarrow> RankTwoTensor \<Rightarrow> RankTwoTensor" where
  "msub (a0, a1, a2) (b0, b1, b2) = (vsub a0 b0, vsub a1 b1, vsub a2 b2)"

fun mmult :: "RankTwoTensor \<Rightarrow> RankTwoTensor \<Rightarrow> RankTwoTensor" where
  "mmult ((a00, a01, a02), (a10, a11, a12), (a20, a21, a22))
         ((b00, b01, b02), (b10, b11, b12), (b20, b21, b22)) =
     ((a00 * b00 + a01 * b10 + a02 * b20, a00 * b01 + a01 * b11 + a02 * b21,
       a00 * b02 + a01 * b12 + a02 * b22),
      (a10 * b00 + a11 * b10 + a12 * b20, a10 * b01 + a11 * b11 + a12 * b21,
       a10 * b02 + a11 * b12 + a12 * b22),
      (a20 * b00 + a21 * b10 + a22 * b20, a20 * b01 + a21 * b11 + a22 * b21,
       a20 * b02 + a21 * b12 + a22 * b22))"

text \<open>The rotation of a local block into the global frame, \<open>R.transpose() * M * R\<close>.\<close>

definition to_global :: "RankTwoTensor \<Rightarrow> RankTwoTensor \<Rightarrow> RankTwoTensor" where
  "to_global R M = mmult (mmult (transpose_t R) M) R"

text \<open>The five blocks that \<open>computeStiffnessMatrix\<close> stores.\<close>

record stiffness =
  K11 :: RankTwoTensor
  K21_cross :: RankTwoTensor
  K21 :: RankTwoTensor
  K22 :: RankTwoTensor
  K22_cross :: RankTwoTensor

text \<open>
  The matrices of the large-strain part (lines 482-686).  A \<open>RankTwoTensor\<close> is
  constructed as zero, so an entry that is never assigned is 0.  Each definition lists
  the entries as assigned, the mirrored ones by name, and ends with the scaling of the
  source (\<open>*= 1.0 / 4.0 / L^2\<close> and the like).
\<close>

definition k1_large_11 :: "real \<Rightarrow> real \<Rightarrow> real \<Rightarrow> real \<Rightarrow> RealVectorValue \<Rightarrow> RealVectorValue \<Rightarrow> RankTwoTensor" where
  "k1_large_11 L Ix_avg Iy_avg Iz_avg gd gr =
     (case (gd, gr) of ((gd0, gd1, gd2), (gr0, gr1, gr2)) \<Rightarrow>
        (let k00 = gd0\<^sup>2 + 1.5 * gr2\<^sup>2 * Iy_avg + 1.5 * gr1\<^sup>2 * Iz_avg + 0.5 * gd1\<^sup>2 +
                   0.5 * gd2\<^sup>2 + 0.5 * gr0\<^sup>2 * Ix_avg;
             k10 = 0.5 * gd0 * gd1 - 1 / 3 * gr0 * gr1 * Iz_avg;
             k20 = 0.5 * gd0 * gd2 - 1 / 3 * gr0 * gr2 * Iy_avg;
             k11 = gd1\<^sup>2 + 1.5 * gr0\<^sup>2 * Iz_avg + 0.5 * gd0\<^sup>2 + 0.5 * gd2\<^sup>2 +
                   0.5 * gr2\<^sup>2 * Iy_avg + 0.5 * gr1\<^sup>2 * Iz_avg + 0.5 * gr0\<^sup>2 * Iy_avg;
             k21 = 0.5 * gd1 * gd2;
             k22 = gd2\<^sup>2 + 1.5 * gr0\<^sup>2 * Iy_avg + 0.5 * gd0\<^sup>2 + 0.5 * gd1\<^sup>2 +
                   0.5 * gr0\<^sup>2 * Iz_avg + 0.5 * gr2\<^sup>2 * Iy_avg + 0.5 * gr2\<^sup>2 * Iz_avg
         in mscale (1 / 4 / L\<^sup>2) ((k00, k10, k20), (k10, k11, k21), (k20, k21, k22))))"

definition k1_large_21 :: "real \<Rightarrow> real \<Rightarrow> real \<Rightarrow> real \<Rightarrow> RealVectorValue \<Rightarrow> RealVectorValue \<Rightarrow> RankTwoTensor" where
  "k1_large_21 L Ix_avg Iy_avg Iz_avg gd gr =
     (case (gd, gr) of ((gd0, gd1, gd2), (gr0, gr1, gr2)) \<Rightarrow>
        (let k00 = 0.5 * gd0 * gr0 * Ix_avg - 1 / 3 * gd1 * gr1 * Iz_avg - 1 / 3 * gd2 * gr2;
             k10 = 1.5 * gd0 * gr1 * Iz_avg - 1 / 3 * gd1 * gr0 * Iz_avg;
             k20 = 1.5 * gd0 * gr2 * Iy_avg - 1 / 3 * gd2 * gr0 * Iy_avg;
             k11 = 0.5 * gd1 * gr1 * Iz_avg - 1 / 3 * gd0 * gr0 * Iz_avg;
             k21 = 0.5 * gd1 * gr2 * Iy_avg;
             k22 = 0.5 * gd2 * gr2 * Iy_avg - 1 / 3 * gd0 * gr0 * Iy_avg
         in mscale (1 / 4 / L\<^sup>2) ((k00, k10, k20), (k10, k11, k21), (k20, k21, k22))))"

definition k1_large_22 :: "real \<Rightarrow> real \<Rightarrow> real \<Rightarrow> real \<Rightarrow> RealVectorValue \<Rightarrow> RealVectorValue \<Rightarrow> RankTwoTensor" where
  "k1_large_22 L Ix_avg Iy_avg Iz_avg gd gr =
     (case (gd, gr) of ((gd0, gd1, gd2), (gr0, gr1, gr2)) \<Rightarrow>
        (let k00 = gr0\<^sup>2 * Ix_avg\<^sup>2 + 1.5 * gd1\<^sup>2 * Iz_avg + 1.5 * gd2\<^sup>2 * Iy_avg +
                   0.5 * gd0\<^sup>2 * Ix_avg + 0.5 * gd2\<^sup>2 * Iz_avg + 0.5 * gd1\<^sup>2 * Iy_avg +
                   0.5 * gr2\<^sup>2 * Iy_avg * Ix_avg + 0.5 * gr1\<^sup>2 * Iz_avg * Ix_avg;
             k10 = 0.5 * gr0 * gr1 * Iz_avg * Ix_avg - 1 / 3 * gd0 * gd1 * Iz_avg;
             k20 = 0.5 * gr0 * gr2 * Iy_avg * Ix_avg - 1 / 3 * gd0 * gd2 * Iy_avg;
             k11 = gr1\<^sup>2 * Iz_avg * Iz_avg + 1.5 * gd0\<^sup>2 * Iz_avg + 1.5 * gr2\<^sup>2 * Iy_avg * Iz_avg +
                   0.5 * gd1\<^sup>2 * Iz_avg + 0.5 * gd2\<^sup>2 * Iz_avg + 0.5 * gr0\<^sup>2 * Iz_avg * Ix_avg;
             k21 = 1.5 * gr1 * gr2 * Iy_avg * Iz_avg;
             k22 = gr2\<^sup>2 * Iy_avg * Iy_avg + 1.5 * gd0\<^sup>2 * Iy_avg + 1.5 * gr1\<^sup>2 * Iy_avg * Iz_avg +
                   0.5 * gd1\<^sup>2 * Iy_avg + 0.5 * gd2\<^sup>2 * Iy_avg + 0.5 * gr0\<^sup>2 * Iz_avg * Ix_avg
         in mscale (1 / 4 / L\<^sup>2) ((k00, k10, k20), (k10, k11, k21), (k20, k21, k22))))"

definition k2_large_11 :: "real \<Rightarrow> RealVectorValue \<Rightarrow> RankTwoTensor" where
  "k2_large_11 L ar =
     (case ar of (ar0, ar1, ar2) \<Rightarrow>
        (let k00 = 0.25 * ar2\<^sup>2 + 0.25 * ar1\<^sup>2;
             k10 = - 1 / 6 * ar0 * ar1;
             k20 = - 1 / 6 * ar0 * ar2;
             k11 = 0.25 * ar0;
             k22 = 0.25 * ar0\<^sup>2
         in mscale (1 / 4 / L\<^sup>2) ((k00, k10, k20), (k10, k11, 0), (k20, 0, k22))))"

definition k2_large_22 :: "real \<Rightarrow> real \<Rightarrow> real \<Rightarrow> real \<Rightarrow> RealVectorValue \<Rightarrow> RankTwoTensor" where
  "k2_large_22 L Ix_avg Iy_avg Iz_avg ar =
     (case ar of (ar0, ar1, ar2) \<Rightarrow>
        (let k00 = 0.25 * ar0\<^sup>2 * Ix_avg;
             k10 = 1 / 6 * ar0 * ar1 * Iz_avg;
             k20 = 1 / 6 * ar0 * ar2 * Iy_avg;
             k11 = 0.25 * ar2\<^sup>2 * Iz_avg + 0.25 * ar1\<^sup>2 * Iz_avg;
             k22 = 0.25 * ar2\<^sup>2 * Iy_avg + 0.25 * ar1\<^sup>2 * Iy_avg
         in mscale (1 / 4 / L\<^sup>2) ((k00, k10, k20), (k10, k11, 0), (k20, 0, k22))))"

definition k4_large_22 :: "real \<Rightarrow> real \<Rightarrow> real \<Rightarrow> RealVectorValue \<Rightarrow> RealVectorValue \<Rightarrow> RankTwoTensor" where
  "k4_large_22 Ix_avg Iy_avg Iz_avg gr ar =
     (case (gr, ar) of ((gr0, gr1, gr2), (ar0, ar1, ar2)) \<Rightarrow>
        ((0.25 * gr0 * ar0 * Ix_avg + 1 / 6 * gr2 * ar2 * Iy_avg + 1 / 6 * gr1 * ar1 * Iz_avg,
          1 / 6 * gr0 * ar1 * Iz_avg,
          1 / 6 * gr0 * ar2 * Iy_avg),
         (1 / 6 * gr1 * ar0 * Iz_avg,
          0.25 * gr1 * ar1 * Iz_avg + 1 / 6 * gr0 * ar0 * Iz_avg,
          0.25 * gr2 * ar1 * Iy_avg),
         (1 / 6 * gr2 * ar0 * Iy_avg,
          0.25 * gr1 * ar2 * Iz_avg,
          0.25 * gr2 * ar2 * Iy_avg + 1 / 6 * gr0 * ar0 * Iy_avg)))"

definition k3_large_22 ::
  "real \<Rightarrow> real \<Rightarrow> real \<Rightarrow> real \<Rightarrow> RealVectorValue \<Rightarrow> RealVectorValue \<Rightarrow> RealVectorValue \<Rightarrow> RankTwoTensor" where
  "k3_large_22 L Ix_avg Iy_avg Iz_avg gd gr ar =
     (case (gd, gr) of ((gd0, gd1, gd2), (gr0, gr1, gr2)) \<Rightarrow>
        (let k00 = 0.25 * gd2\<^sup>2 + 0.25 * gr0 * Ix_avg + 0.25 * gd1\<^sup>2;
             k10 = - 1 / 6 * gd0 * gd1 + 1 / 6 * gr0 * gr1 * Iz_avg;
             k20 = - 1 / 6 * gd0 * gd2 + 1 / 6 * gr0 * gr2 * Iy_avg;
             k22 = 0.25 * gd0\<^sup>2 + 0.25 * gr2 * Iy_avg + 0.25 * gr1 * Iz_avg;
             k4 = k4_large_22 Ix_avg Iy_avg Iz_avg gr ar
         in madd (mscale (1 / 16) ((k00, k10, k20), (k10, 0, 0), (k20, 0, k22)))
                 (mscale (1 / 8 / L) (madd k4 (transpose_t k4)))))"

definition k3_large_21 :: "real \<Rightarrow> RealVectorValue \<Rightarrow> RealVectorValue \<Rightarrow> RankTwoTensor" where
  "k3_large_21 L gd ar =
     (case (gd, ar) of ((gd0, gd1, gd2), (ar0, ar1, ar2)) \<Rightarrow>
        mscale (1 / 8 / L)
          ((- 1 / 6 * (gd2 * ar2 + gd1 * ar1),
            0.25 * gd1 * ar0 - 1 / 6 * gd0 * ar1,
            0.25 * gd2 * ar0 - 1 / 6 * gd0 * ar2),
           (0.25 * gd0 * ar1 - 1 / 6 * gd1 * ar0, - 1 / 6 * gd0 * ar0, 0),
           (0.25 * gd0 * ar2 - 1 / 6 * gd2 * ar0, 0, - 1 / 6 * gd0 * ar0)))"

text \<open>
  \<open>computeStiffnessMatrix\<close>, run by \<open>computeProperties\<close> after \<open>computeQpStrain\<close>, whose
  local gradients and average rotation it reads from the members.
\<close>

definition computeStiffnessMatrix :: "beam \<Rightarrow> qp_input \<Rightarrow> qp_output \<Rightarrow> stiffness" where
  "computeStiffnessMatrix B I out =
     (let youngs_modulus = fst (material_stiffness I);
          shear_modulus = fst (snd (material_stiffness I));
          L = original_length I;
          R = total_rotation I;
          A_avg = (area B 0 + area B 1) / 2;
          Iy_avg = (Iy B 0 + Iy B 1) / 2;
          Iz_avg = (Iz B 0 + Iz B 1) / 2;
          Ix_avg = (if has_Ix B then (Ix B 0 + Ix B 1) / 2 else Iy_avg + Iz_avg);
          K11_local = ((youngs_modulus * A_avg / L, 0, 0),
                       (0, shear_modulus * A_avg / L, 0),
                       (0, 0, shear_modulus * A_avg / L));
          K21_local = ((0, 0, 0),
                       (0, 0, - shear_modulus * A_avg * 0.5),
                       (0, shear_modulus * A_avg * 0.5, 0));
          k22_11 = youngs_modulus * Iz_avg / L + shear_modulus * A_avg * L / 4;
          k22_22 = youngs_modulus * Iy_avg / L + shear_modulus * A_avg * L / 4;
          K22_local = ((shear_modulus * Ix_avg / L, 0, 0), (0, k22_11, 0), (0, 0, k22_22));
          K22_local_cross = madd (mneg K22_local)
                             ((0, 0, 0),
                              (0, 2 * shear_modulus * A_avg * L / 4, 0),
                              (0, 0, 2 * shear_modulus * A_avg * L / 4));
          small = \<lparr> K11 = to_global R K11_local,
                    K21_cross = mneg (to_global R K21_local),
                    K21 = to_global R K21_local,
                    K22 = to_global R K22_local,
                    K22_cross = to_global R K22_local_cross \<rparr>
      in if large_strain B then
           (let gd = grad_disp_0_local_t out;
                gr = grad_rot_0_local_t out;
                ar = avg_rot_local_t out;
                k1_11 = k1_large_11 L Ix_avg Iy_avg Iz_avg gd gr;
                k1_21 = k1_large_21 L Ix_avg Iy_avg Iz_avg gd gr;
                k1_22 = k1_large_22 L Ix_avg Iy_avg Iz_avg gd gr;
                k2_11 = k2_large_11 L ar;
                k2_22 = k2_large_22 L Ix_avg Iy_avg Iz_avg ar;
                k3_22 = k3_large_22 L Ix_avg Iy_avg Iz_avg gd gr ar;
                k3_21 = k3_large_21 L gd ar
            in \<lparr> K11 = madd (K11 small) (to_global R (madd k1_11 k2_11)),
                 K21_cross = madd (K21_cross small) (to_global R (madd (mneg k1_21) k3_21)),
                 K21 = madd (K21 small) (to_global R (madd k1_21 k3_21)),
                 K22 = madd (K22 small) (to_global R (madd (madd k1_22 k2_22) k3_22)),
                 K22_cross = madd (K22_cross small)
                               (to_global R (madd (msub (mneg k1_22) k2_22) k3_22)) \<rparr>)
         else small)"

text \<open>
  The exchange of the two transverse axes of the local frame (a quarter turn about the
  beam axis: the new y is the old z, the new z the old -y), on a vector and on the
  second moments of the section.
\<close>

definition exchange_axes :: "RealVectorValue \<Rightarrow> RealVectorValue" where
  "exchange_axes v = (case v of (v0, v1, v2) \<Rightarrow> (v0, v2, - v1))"

definition exchange_section :: "beam \<Rightarrow> beam" where
  "exchange_section B = B\<lparr> Iy := Iz B, Iz := Iy B \<rparr>"

section \<open>Construction\<close>

text \<open>
  The input parameters the constructor reads: the numbers of coupled components of
  \<open>rotations\<close> and \<open>displacements\<close>, and the parameters of \<open>validParams\<close>.  \<open>Ix\<close> is
  optional; \<open>Ay\<close> and \<open>Az\<close> default to 0, \<open>hardening_constant\<close> to 0,
  \<open>absolute_tolerance\<close> to 1e-10 and \<open>relative_tolerance\<close> to 1e-8.
\<close>

record InputParameters =
  p_rotations :: nat
  p_displacements :: nat
  p_num_layers :: nat
  p_area :: "nat \<Rightarrow> real"
  p_width :: real
  p_depth :: real
  p_Ay :: "nat \<Rightarrow> real"
  p_Az :: "nat \<Rightarrow> real"
  p_Ix :: "(nat \<Rightarrow> real) option"
  p_Iy :: "nat \<Rightarrow> real"
  p_Iz :: "nat \<Rightarrow> real"
  p_large_strain :: bool
  p_elasticity_prefactor :: "Function option"
  p_yield_stress :: real
  p_hardening_constant :: real
  p_hardening_function :: "Function option"
  p_absolute_tolerance :: real
  p_relative_tolerance :: real

text \<open>The constructor: the two checks, then the object with \<open>_max_its(1000)\<close>.\<close>

definition LayeredBeam :: "InputParameters \<Rightarrow> error + beam" where
  "LayeredBeam p =
     (if p_displacements p \<noteq> p_rotations p then Inl (mooseError CountMismatch)
      else if p_large_strain p \<and>
              (p_Ay p 0 > 0 \<or> p_Ay p 1 > 0 \<or> p_Az p 0 > 0 \<or> p_Az p 1 > 0)
      then Inl (mooseError AsymmetricLargeStrain)
      else Inr \<lparr> has_Ix = (p_Ix p \<noteq> None),
                 nlayers = p_num_layers p,
                 area = p_area p,
                 width = p_width p,
                 depth = p_depth p,
                 Ay = p_Ay p,
                 Az = p_Az p,
                 Iy = p_Iy p,
                 Iz = p_Iz p,
                 Ix = (case p_Ix p of Some v \<Rightarrow> v | None \<Rightarrow> (\<lambda>_. 0)),
                 large_strain = p_large_strain p,
                 prefactor_function = p_elasticity_prefactor p,
                 yield_stress = p_yield_stress p,
                 hardening_constant = p_hardening_constant p,
                 hardening_function = p_hardening_function p,
                 absolute_tolerance = p_absolute_tolerance p,
                 relative_tolerance = p_relative_tolerance p,
                 max_its = 1000 \<rparr>)"

section \<open>Layer geometry\<close>

text \<open>
  The thickness of a layer and the offset of the centroid of layer \<open>k\<close> from the
  mid-line, for layers that tile the depth from \<open>- depth / 2\<close> upwards.
\<close>

definition thickness :: "beam \<Rightarrow> real" where
  "thickness B = depth B / real (nlayers B)"

definition z_offset :: "beam \<Rightarrow> nat \<Rightarrow> real" where
  "z_offset B k = - depth B / 2 + (real k + 1 / 2) * thickness B"

section \<open>Admissible layer states\<close>

text \<open>
  A layer of a state is admissible when its stress does not exceed the yield condition
  \<open>|stress| - hardening - yield_stress \<le> 0\<close>, or exceeds it by an amount that the
  convergence test of the Newton iteration accepts on entry (both tolerances met, with
  \<open>|stress|\<close> as the reference).
\<close>

definition admissible :: "beam \<Rightarrow> props \<Rightarrow> nat \<Rightarrow> bool" where
  "admissible B P k \<longleftrightarrow>
     \<bar>direct_stress P k\<bar> - hardening_variable P k - yield_stress B \<le> 0 \<or>
     (\<bar>\<bar>direct_stress P k\<bar> - hardening_variable P k - yield_stress B\<bar> \<le> absolute_tolerance B \<and>
      \<not> relative_exceeded (\<bar>direct_stress P k\<bar> - hardening_variable P k - yield_stress B)
           \<bar>direct_stress P k\<bar> (relative_tolerance B))"

section \<open>The effective stiffness of the specification\<close>

text \<open>
  The formula of the specification (4.6) for the effective stiffness before any
  prefactor, from the axial and the shear modulus, the original length and the averaged
  area and second moment: \<open>c1\<close> and \<open>c2\<close> are the square roots of the moduli.
\<close>

definition spec_effective_stiffness :: "real \<Rightarrow> real \<Rightarrow> real \<Rightarrow> real \<Rightarrow> real \<Rightarrow> real" where
  "spec_effective_stiffness axial shear L A_avg Iz_avg =
     (let c1 = sqrt axial; c2 = sqrt shear
      in max (max c1 c2) (L / (2 / (c2 * sqrt (A_avg / Iz_avg)))))"

section \<open>Concrete inputs\<close>

text \<open>
  A beam of unit width and depth with \<open>n\<close> layers, linear hardening and the given yield
  stress, hardening constant and tolerances; and a state whose layers all hold the same
  values.
\<close>

definition example_beam :: "nat \<Rightarrow> real \<Rightarrow> real \<Rightarrow> real \<Rightarrow> real \<Rightarrow> beam" where
  "example_beam n Y K atol rtol =
     \<lparr> has_Ix = False, nlayers = n, area = (\<lambda>_. 1), width = 1, depth = 1,
       Ay = (\<lambda>_. 0), Az = (\<lambda>_. 0), Iy = (\<lambda>_. 1), Iz = (\<lambda>_. 1), Ix = (\<lambda>_. 0),
       large_strain = False, prefactor_function = None,
       yield_stress = Y, hardening_constant = K, hardening_function = None,
       absolute_tolerance = atol, relative_tolerance = rtol, max_its = 1000 \<rparr>"

definition example_props :: "real \<Rightarrow> real \<Rightarrow> real \<Rightarrow> real \<Rightarrow> props" where
  "example_props sigma eps hv m =
     \<lparr> direct_stress = (\<lambda>_. sigma), plastic_strain = (\<lambda>_. eps),
       hardening_variable = (\<lambda>_. hv), stres = m \<rparr>"

text \<open>
  A call with zero nodal increments in the global frame (identity rotation, unit length,
  no eigenstrains, flexural modulus 1), with the given old total strains and old layer
  state; and a set of input parameters with the given large-strain flag and first moment
  \<open>Ay\<close>.
\<close>

definition example_input :: "RealVectorValue \<Rightarrow> RealVectorValue \<Rightarrow> props \<Rightarrow> qp_input" where
  "example_input tds_old trs_old old =
     \<lparr> qp = 0, original_length = 1,
       total_rotation = ((1, 0, 0), (0, 1, 0), (0, 0, 1)),
       disp0 = (0, 0, 0), disp1 = (0, 0, 0), rot0 = (0, 0, 0), rot1 = (0, 0, 0),
       material_stiffness = (4, 1, 1), material_flexure = (1, 1, 1),
       total_disp_strain_old = tds_old, total_rot_strain_old = trs_old,
       eigenstrains = [], cur_time = 0, q_point = (0, 0, 0),
       old_props = old, cur_props = example_props 0 0 0 0 \<rparr>"

definition example_parameters :: "bool \<Rightarrow> real \<Rightarrow> InputParameters" where
  "example_parameters ls a =
     \<lparr> p_rotations = 3, p_displacements = 3, p_num_layers = 10,
       p_area = (\<lambda>_. 1), p_width = 1, p_depth = 1,
       p_Ay = (\<lambda>_. a), p_Az = (\<lambda>_. 0), p_Ix = None, p_Iy = (\<lambda>_. 1), p_Iz = (\<lambda>_. 1),
       p_large_strain = ls, p_elasticity_prefactor = None,
       p_yield_stress = 200, p_hardening_constant = 0, p_hardening_function = None,
       p_absolute_tolerance = 1 / 10 ^ 10, p_relative_tolerance = 1 / 10 ^ 8 \<rparr>"

text \<open>
  A large-strain beam with equal second moments \<open>Iy = Iz = 1\<close>; a call in which node 1
  moves by 1/10 along the beam axis (unit length) with no rotation; and a call in which
  both nodes turn by 1/10 about the beam axis.
\<close>

definition example_stretch_input :: qp_input where
  "example_stretch_input = (example_input (0, 0, 0) (0, 0, 0) (example_props 0 0 0 0))
      \<lparr> disp1 := (1 / 10, 0, 0) \<rparr>"

definition example_twist_input :: qp_input where
  "example_twist_input = (example_input (0, 0, 0) (0, 0, 0) (example_props 0 0 0 0))
      \<lparr> rot0 := (1 / 10, 0, 0), rot1 := (1 / 10, 0, 0) \<rparr>"

definition example_large_beam :: beam where
  "example_large_beam = (example_beam 1 200 0 (1 / 10 ^ 10) (1 / 10 ^ 8))\<lparr> large_strain := True \<rparr>"

text \<open>
  Two beams of two layers with yield stress 1, one softening (hardening constant -1/2),
  one perfectly plastic; a call from the initial state in which node 1 turns by 40 about
  the local z axis (curvature increment 40, trial stresses -10 and 10 for modulus 1); the
  layer states that this call leaves on the two beams; and the call that follows it with
  zero increments, whose old total strains are those of the first call.
\<close>

definition example_softening_beam :: beam where
  "example_softening_beam = example_beam 2 1 (- 1 / 2) (1 / 10 ^ 10) (1 / 10 ^ 8)"

definition example_plastic_beam :: beam where
  "example_plastic_beam = example_beam 2 1 0 (1 / 10 ^ 10) (1 / 10 ^ 8)"

definition example_bend_input :: qp_input where
  "example_bend_input = (example_input (0, 0, 0) (0, 0, 0) (example_props 0 0 0 0))
      \<lparr> rot1 := (0, 0, 40) \<rparr>"

definition example_softened_props :: props where
  "example_softened_props =
     \<lparr> direct_stress = (\<lambda>_. 0)(0 := 8, Suc 0 := - 8),
       plastic_strain = (\<lambda>_. 0)(0 := - 18, Suc 0 := 18),
       hardening_variable = (\<lambda>_. 0)(0 := - 9, Suc 0 := - 9),
       stres = - 2 \<rparr>"

definition example_yielded_props :: props where
  "example_yielded_props =
     \<lparr> direct_stress = (\<lambda>_. 0)(0 := - 1, Suc 0 := 1),
       plastic_strain = (\<lambda>_. 0)(0 := - 9, Suc 0 := 9),
       hardening_variable = (\<lambda>_. 0)(0 := 0, Suc 0 := 0),
       stres = 1 / 4 \<rparr>"

definition example_rest_input :: "props \<Rightarrow> qp_input" where
  "example_rest_input old = example_input (0, - 20, 0) (0, 0, 40) old"

section \<open>Properties of the Newton iteration\<close>

lemma iteration_loop_body [simp]:
  "iteration (loop_body B E old i t s) = Suc (iteration s)"
  by (simp add: loop_body_def Let_def)

lemma newton_loop_exit:
  "newton_loop B E old i t s = Inr s' \<Longrightarrow> \<not> loop_condition B s'"
proof (induction B E old i t s rule: newton_loop.induct)
  case (1 B E old i t s)
  show ?case
  proof (cases "loop_condition B s")
    case True
    with "1.prems" have le: "\<not> max_its B < iteration (loop_body B E old i t s)"
      and rec: "newton_loop B E old i t (loop_body B E old i t s) = Inr s'"
      by (auto simp: newton_loop.simps [of B E old i t s] split: if_splits)
    from "1.IH" [OF True le rec] show ?thesis .
  next
    case False
    with "1.prems" show ?thesis
      by (simp add: newton_loop.simps [of B E old i t s])
  qed
qed

text \<open>
  The loop returns the first iterate of the body at which the condition fails, provided
  it is reached within the cap.
\<close>

lemma newton_loop_Inr_iff:
  "newton_loop B E old i t s = Inr s' \<longleftrightarrow>
     (\<exists>k. (k = 0 \<or> iteration s + k \<le> max_its B) \<and>
          s' = (loop_body B E old i t ^^ k) s \<and>
          \<not> loop_condition B s' \<and>
          (\<forall>j<k. loop_condition B ((loop_body B E old i t ^^ j) s)))"
proof (induction B E old i t s rule: newton_loop.induct)
  case (1 B E old i t s)
  let ?f = "loop_body B E old i t"
  show ?case
  proof (cases "loop_condition B s")
    case False
    have "(\<exists>k. (k = 0 \<or> iteration s + k \<le> max_its B) \<and> s' = (?f ^^ k) s \<and>
          \<not> loop_condition B s' \<and> (\<forall>j<k. loop_condition B ((?f ^^ j) s))) \<longleftrightarrow> s' = s"
    proof
      assume "\<exists>k. (k = 0 \<or> iteration s + k \<le> max_its B) \<and> s' = (?f ^^ k) s \<and>
          \<not> loop_condition B s' \<and> (\<forall>j<k. loop_condition B ((?f ^^ j) s))"
      then obtain k where k: "s' = (?f ^^ k) s" "\<forall>j<k. loop_condition B ((?f ^^ j) s)" by blast
      have "k = 0"
      proof (rule ccontr)
        assume "k \<noteq> 0"
        then have "0 < k" by simp
        with k(2) have "loop_condition B ((?f ^^ 0) s)" by blast
        with False show False by simp
      qed
      with k(1) show "s' = s" by simp
    next
      assume "s' = s"
      with False show "\<exists>k. (k = 0 \<or> iteration s + k \<le> max_its B) \<and> s' = (?f ^^ k) s \<and>
          \<not> loop_condition B s' \<and> (\<forall>j<k. loop_condition B ((?f ^^ j) s))"
        by (intro exI [of _ 0]) simp
    qed
    with False show ?thesis
      by (auto simp: newton_loop.simps [of B E old i t s])
  next
    case True
    show ?thesis
    proof (cases "max_its B < iteration (?f s)")
      case over: True
      have "\<not> (\<exists>k. (k = 0 \<or> iteration s + k \<le> max_its B) \<and> s' = (?f ^^ k) s \<and>
          \<not> loop_condition B s' \<and> (\<forall>j<k. loop_condition B ((?f ^^ j) s)))"
      proof
        assume "\<exists>k. (k = 0 \<or> iteration s + k \<le> max_its B) \<and> s' = (?f ^^ k) s \<and>
          \<not> loop_condition B s' \<and> (\<forall>j<k. loop_condition B ((?f ^^ j) s))"
        then obtain k where k: "k = 0 \<or> iteration s + k \<le> max_its B" "s' = (?f ^^ k) s"
          "\<not> loop_condition B s'" by blast
        from over have "max_its B < Suc (iteration s)" by simp
        with k(1) have "k = 0" by auto
        with k(2,3) True show False by simp
      qed
      with True over show ?thesis
        by (simp add: newton_loop.simps [of B E old i t s])
    next
      case under: False
      have step: "newton_loop B E old i t s = newton_loop B E old i t (?f s)"
        using True under by (simp add: newton_loop.simps [of B E old i t s])
      have "(\<exists>k. (k = 0 \<or> iteration (?f s) + k \<le> max_its B) \<and> s' = (?f ^^ k) (?f s) \<and>
          \<not> loop_condition B s' \<and> (\<forall>j<k. loop_condition B ((?f ^^ j) (?f s)))) \<longleftrightarrow>
        (\<exists>k. (k = 0 \<or> iteration s + k \<le> max_its B) \<and> s' = (?f ^^ k) s \<and>
          \<not> loop_condition B s' \<and> (\<forall>j<k. loop_condition B ((?f ^^ j) s)))" (is "?L \<longleftrightarrow> ?R")
      proof
        assume ?L
        then obtain k where k: "k = 0 \<or> iteration (?f s) + k \<le> max_its B" "s' = (?f ^^ k) (?f s)"
          "\<not> loop_condition B s'" "\<forall>j<k. loop_condition B ((?f ^^ j) (?f s))" by blast
        have a: "iteration s + Suc k \<le> max_its B" using k(1) under by auto
        have b: "s' = (?f ^^ Suc k) s" using k(2) by (simp add: funpow_swap1)
        have c: "\<forall>j<Suc k. loop_condition B ((?f ^^ j) s)"
        proof (intro allI impI)
          fix j assume "j < Suc k"
          show "loop_condition B ((?f ^^ j) s)"
          proof (cases j)
            case 0 with True show ?thesis by simp
          next
            case (Suc m)
            with \<open>j < Suc k\<close> k(4) have "loop_condition B ((?f ^^ m) (?f s))" by simp
            with Suc show ?thesis by (simp add: funpow_swap1)
          qed
        qed
        from a b c k(3) show ?R by blast
      next
        assume ?R
        then obtain k where k: "k = 0 \<or> iteration s + k \<le> max_its B" "s' = (?f ^^ k) s"
          "\<not> loop_condition B s'" "\<forall>j<k. loop_condition B ((?f ^^ j) s)" by blast
        have "k \<noteq> 0"
        proof
          assume "k = 0"
          with k(2) have "s' = s" by simp
          with k(3) True show False by simp
        qed
        then obtain m where m: "k = Suc m" by (cases k) auto
        have a: "m = 0 \<or> iteration (?f s) + m \<le> max_its B" using k(1) m by auto
        have b: "s' = (?f ^^ m) (?f s)" using k(2) m by (simp add: funpow_swap1)
        have c: "\<forall>j<m. loop_condition B ((?f ^^ j) (?f s))"
        proof (intro allI impI)
          fix j assume "j < m"
          then have "Suc j < k" using m by simp
          with k(4) have "loop_condition B ((?f ^^ Suc j) s)" by blast
          then show "loop_condition B ((?f ^^ j) (?f s))" by (simp add: funpow_swap1)
        qed
        from a b c k(3) show ?L by blast
      qed
      with "1.IH" [OF True under] step show ?thesis by simp
    qed
  qed
qed

lemma newton_loop_Inl:
  "newton_loop B E old i t s = Inl e \<Longrightarrow> e = MooseException"
proof (induction B E old i t s rule: newton_loop.induct)
  case (1 B E old i t s)
  show ?case
  proof (cases "loop_condition B s \<and> \<not> max_its B < iteration (loop_body B E old i t s)")
    case True
    with "1.prems" have "newton_loop B E old i t (loop_body B E old i t s) = Inl e"
      by (simp add: newton_loop.simps [of B E old i t s])
    with "1.IH" True show ?thesis by blast
  next
    case False
    with "1.prems" show ?thesis
      by (auto simp: newton_loop.simps [of B E old i t s] split: if_splits)
  qed
qed

lemma newton_loop_fails_iff:
  "newton_loop B E old i t s = Inl MooseException \<longleftrightarrow>
     (\<forall>k. (k = 0 \<or> iteration s + k \<le> max_its B) \<longrightarrow>
          loop_condition B ((loop_body B E old i t ^^ k) s))"
  (is "?L \<longleftrightarrow> ?R")
proof
  assume L: ?L
  show ?R
  proof (intro allI impI)
    fix k assume bk: "k = 0 \<or> iteration s + k \<le> max_its B"
    then show "loop_condition B ((loop_body B E old i t ^^ k) s)"
    proof (induction k rule: less_induct)
      case (less k)
      show ?case
      proof (rule ccontr)
        assume n: "\<not> loop_condition B ((loop_body B E old i t ^^ k) s)"
        have "\<forall>j<k. loop_condition B ((loop_body B E old i t ^^ j) s)"
        proof (intro allI impI)
          fix j assume "j < k"
          moreover from this less.prems have "j = 0 \<or> iteration s + j \<le> max_its B" by auto
          ultimately show "loop_condition B ((loop_body B E old i t ^^ j) s)"
            by (rule less.IH)
        qed
        with n less.prems
        have "newton_loop B E old i t s = Inr ((loop_body B E old i t ^^ k) s)"
          unfolding newton_loop_Inr_iff by blast
        with L show False by simp
      qed
    qed
  qed
next
  assume R: ?R
  show ?L
  proof (cases "newton_loop B E old i t s")
    case (Inl e)
    with newton_loop_Inl [OF Inl] show ?thesis by simp
  next
    case (Inr s')
    then obtain k where "k = 0 \<or> iteration s + k \<le> max_its B"
      "s' = (loop_body B E old i t ^^ k) s" "\<not> loop_condition B s'"
      unfolding newton_loop_Inr_iff by blast
    with R show ?thesis by blast
  qed
qed

lemma newton_loop_iteration:
  "newton_loop B E old i t s = Inr s' \<Longrightarrow> iteration s \<le> max_its B \<Longrightarrow> iteration s' \<le> max_its B"
proof -
  have it: "iteration ((loop_body B E old i t ^^ k) s) = iteration s + k" for k
    by (induction k) simp_all
  assume "newton_loop B E old i t s = Inr s'" "iteration s \<le> max_its B"
  then show ?thesis unfolding newton_loop_Inr_iff using it by auto
qed

lemma example_beam_simps [simp]:
  "nlayers (example_beam n Y K atol rtol) = n"
  "width (example_beam n Y K atol rtol) = 1"
  "depth (example_beam n Y K atol rtol) = 1"
  "yield_stress (example_beam n Y K atol rtol) = Y"
  "hardening_constant (example_beam n Y K atol rtol) = K"
  "hardening_function (example_beam n Y K atol rtol) = None"
  "absolute_tolerance (example_beam n Y K atol rtol) = atol"
  "relative_tolerance (example_beam n Y K atol rtol) = rtol"
  "max_its (example_beam n Y K atol rtol) = 1000"
  by (simp_all add: example_beam_def)

lemma example_beam_more_simps [simp]:
  "has_Ix (example_beam n Y K atol rtol) = False"
  "area (example_beam n Y K atol rtol) q = 1"
  "Ay (example_beam n Y K atol rtol) q = 0"
  "Az (example_beam n Y K atol rtol) q = 0"
  "Iy (example_beam n Y K atol rtol) q = 1"
  "Iz (example_beam n Y K atol rtol) q = 1"
  "Ix (example_beam n Y K atol rtol) q = 0"
  "large_strain (example_beam n Y K atol rtol) = False"
  "prefactor_function (example_beam n Y K atol rtol) = None"
  by (simp_all add: example_beam_def)

lemma example_props_simps [simp]:
  "direct_stress (example_props sigma eps hv m) i = sigma"
  "plastic_strain (example_props sigma eps hv m) i = eps"
  "hardening_variable (example_props sigma eps hv m) i = hv"
  "stres (example_props sigma eps hv m) = m"
  by (simp_all add: example_props_def)

text \<open>
  C1 (as amended).  The loop goes on while either tolerance is exceeded: it returns the
  first iterate at which the absolute and the relative test are both met (reached within
  the iteration cap), and no iterate before it meets both.
\<close>

theorem newton_stops_when_both_tolerances_met:
  "newton_loop B E old i t s = Inr s' \<longleftrightarrow>
     (\<exists>k. (k = 0 \<or> iteration s + k \<le> max_its B) \<and>
          s' = (loop_body B E old i t ^^ k) s \<and>
          (\<bar>residual s'\<bar> \<le> absolute_tolerance B \<and>
           \<not> relative_exceeded (residual s') (reference_residual s') (relative_tolerance B)) \<and>
          (\<forall>j<k. \<bar>residual ((loop_body B E old i t ^^ j) s)\<bar> > absolute_tolerance B \<or>
                 relative_exceeded (residual ((loop_body B E old i t ^^ j) s))
                   (reference_residual ((loop_body B E old i t ^^ j) s)) (relative_tolerance B)))"
  unfolding newton_loop_Inr_iff loop_condition_def by (simp add: not_less)

theorem newton_stops_when_both_tolerances_met_witness:
  "newton_loop (example_beam 1 200 1000 (1 / 10 ^ 10) (1 / 10 ^ 8)) 200000
      (example_props 0 0 0 0) 0 300
      (newton_init (example_beam 1 200 1000 (1 / 10 ^ 10) (1 / 10 ^ 8)) 200000
         (example_props 0 0 0 0) 0 300)
   = Inr \<lparr> hardening_variable_i = 100 / 201, plastic_strain_increment = 1 / 2010,
           residual = 0, reference_residual = 40300 / 201, iteration = 2 \<rparr>"
  apply (rule iffD2 [OF newton_stops_when_both_tolerances_met])
  apply (rule exI [of _ 2])
  apply (simp add: numeral_2_eq_2 less_Suc_eq newton_init_def loop_body_def relative_exceeded_def
      computeHardeningValue_def computeHardeningDerivative_def Let_def)
  done

text \<open>
  The claim as stated fails with the default tolerances: on entry the relative test is
  met (the quotient is about 5e-10) but the residual 1e-4 exceeds the absolute tolerance,
  and the loop runs its body once more.
\<close>

theorem either_tolerance_counterexample:
  "\<bar>residual (newton_init (example_beam 1 200000 0 (1 / 10 ^ 10) (1 / 10 ^ 8)) 200000
      (example_props 0 0 0 0) 0 (200000 + 1 / 10000))
    / reference_residual (newton_init (example_beam 1 200000 0 (1 / 10 ^ 10) (1 / 10 ^ 8)) 200000
      (example_props 0 0 0 0) 0 (200000 + 1 / 10000))\<bar> \<le> 1 / 10 ^ 8 \<and>
   newton_loop (example_beam 1 200000 0 (1 / 10 ^ 10) (1 / 10 ^ 8)) 200000
      (example_props 0 0 0 0) 0 (200000 + 1 / 10000)
      (newton_init (example_beam 1 200000 0 (1 / 10 ^ 10) (1 / 10 ^ 8)) 200000
         (example_props 0 0 0 0) 0 (200000 + 1 / 10000))
   = Inr \<lparr> hardening_variable_i = 0, plastic_strain_increment = 1 / 2000000000,
           residual = 0, reference_residual = 200000, iteration = 1 \<rparr>"
  apply (rule conjI)
   apply (simp add: newton_init_def)
  apply (subst newton_loop.simps)
  apply (subst newton_loop.simps)
  apply (simp add: newton_init_def loop_body_def loop_condition_def relative_exceeded_def
      computeHardeningValue_def computeHardeningDerivative_def Let_def)
  done


text \<open>
  C9.  The relative test divides by \<open>reference_residual\<close> without a guard, and the
  denominator can be exactly zero: for perfect plasticity with zero yield stress
  (modulus 1, trial stress 1, default tolerances) the yield condition is exceeded, the
  first iteration gives \<open>residual = 0\<close> and \<open>reference_residual = 0\<close>, the absolute test
  passes, so the source evaluates \<open>residual / reference_residual\<close> there, and the loop
  is left with that state.
\<close>

theorem relative_test_zero_denominator:
  "\<bar>1\<bar> - hardening_variable (example_props 0 0 0 0) 0
     - yield_stress (example_beam 1 0 0 (1 / 10 ^ 10) (1 / 10 ^ 8)) > (0::real) \<and>
   newton_loop (example_beam 1 0 0 (1 / 10 ^ 10) (1 / 10 ^ 8)) 1 (example_props 0 0 0 0) 0 1
      (newton_init (example_beam 1 0 0 (1 / 10 ^ 10) (1 / 10 ^ 8)) 1 (example_props 0 0 0 0) 0 1)
   = Inr \<lparr> hardening_variable_i = 0, plastic_strain_increment = 1,
           residual = 0, reference_residual = 0, iteration = 1 \<rparr> \<and>
   \<not> \<bar>residual \<lparr> hardening_variable_i = 0, plastic_strain_increment = 1,
           residual = 0, reference_residual = 0, iteration = 1 \<rparr>\<bar>
       > absolute_tolerance (example_beam 1 0 0 (1 / 10 ^ 10) (1 / 10 ^ 8))"
  apply (intro conjI)
    apply simp
   apply (subst newton_loop.simps)
   apply (subst newton_loop.simps)
   apply (simp add: newton_init_def loop_body_def loop_condition_def relative_exceeded_def
      computeHardeningValue_def computeHardeningDerivative_def Let_def)
  apply simp
  done

section \<open>Linear hardening\<close>

text \<open>
  With \<open>H = hardening_old + slope * increment\<close> every execution of the loop body leaves
  the closed-form increment, whatever the increment was before; the hardening variable
  is the one of the previous increment.
\<close>

lemma linear_loop_body:
  assumes "hardening_function B = None" and "E + hardening_constant B \<noteq> 0"
  shows "plastic_strain_increment (loop_body B E old i t s) =
           (\<bar>t\<bar> - hardening_variable old i - yield_stress B) / (E + hardening_constant B)"
    and "hardening_variable_i (loop_body B E old i t s) =
           hardening_variable old i + hardening_constant B * plastic_strain_increment s"
proof -
  let ?K = "hardening_constant B"
  let ?p = "plastic_strain_increment s"
  have "?p + (\<bar>t\<bar> - (hardening_variable old i + ?K * ?p) - yield_stress B - E * ?p) / (E + ?K)
        = (\<bar>t\<bar> - hardening_variable old i - yield_stress B) / (E + ?K)"
    using assms(2) by (simp add: field_simps)
  then show "plastic_strain_increment (loop_body B E old i t s) =
           (\<bar>t\<bar> - hardening_variable old i - yield_stress B) / (E + hardening_constant B)"
    using assms(1)
    by (simp add: loop_body_def computeHardeningValue_def computeHardeningDerivative_def Let_def)
  show "hardening_variable_i (loop_body B E old i t s) =
           hardening_variable old i + hardening_constant B * plastic_strain_increment s"
    using assms(1) by (simp add: loop_body_def computeHardeningValue_def Let_def)
qed

lemma example_hardening_run:
  "newton_loop (example_beam 1 200 1000 (1 / 10 ^ 10) (1 / 10 ^ 8)) 200000
      (example_props 0 0 0 0) 0 300
      (newton_init (example_beam 1 200 1000 (1 / 10 ^ 10) (1 / 10 ^ 8)) 200000
         (example_props 0 0 0 0) 0 300)
   = Inr \<lparr> hardening_variable_i = 100 / 201, plastic_strain_increment = 1 / 2010,
           residual = 0, reference_residual = 40300 / 201, iteration = 2 \<rparr>"
  apply (subst newton_loop.simps)
  apply (subst newton_loop.simps)
  apply (subst newton_loop.simps)
  apply (simp add: newton_init_def loop_body_def loop_condition_def relative_exceeded_def
      computeHardeningValue_def computeHardeningDerivative_def Let_def)
  done

lemma example_accepted_run:
  "newton_loop (example_beam 1 200 1000 (1 / 10 ^ 10) (1 / 10 ^ 8)) 200000
      (example_props 0 0 0 0) 0 (200 + 1 / 10 ^ 11)
      (newton_init (example_beam 1 200 1000 (1 / 10 ^ 10) (1 / 10 ^ 8)) 200000
         (example_props 0 0 0 0) 0 (200 + 1 / 10 ^ 11))
   = Inr \<lparr> hardening_variable_i = 0, plastic_strain_increment = 0,
           residual = 1 / 10 ^ 11, reference_residual = 200 + 1 / 10 ^ 11, iteration = 0 \<rparr>"
  apply (subst newton_loop.simps)
  apply (simp add: newton_init_def loop_condition_def relative_exceeded_def)
  done

text \<open>
  C3 (as amended).  Linear hardening with \<open>modulus + slope\<close> non-zero, yield condition
  exceeded: the solve either ends with the exception, or it returns, and then its plastic
  strain increment (before the sign of the trial stress is applied) is the closed form
  \<open>(|trial| - yield_stress - hardening_old) / (modulus + slope)\<close> if the residual on entry
  exceeds a tolerance, and 0 if the residual on entry meets both tolerances.
\<close>

theorem linear_hardening_closed_form:
  assumes "hardening_function B = None"
    and "E + hardening_constant B \<noteq> 0"
    and "\<bar>t\<bar> - hardening_variable old i - yield_stress B > 0"
  shows "newton_loop B E old i t (newton_init B E old i t) = Inl MooseException \<or>
         (\<exists>s. newton_loop B E old i t (newton_init B E old i t) = Inr s \<and>
              plastic_strain_increment s =
                (if \<bar>\<bar>t\<bar> - hardening_variable old i - yield_stress B\<bar> > absolute_tolerance B \<or>
                    relative_exceeded (\<bar>t\<bar> - hardening_variable old i - yield_stress B) \<bar>t\<bar>
                      (relative_tolerance B)
                 then (\<bar>t\<bar> - yield_stress B - hardening_variable old i) / (E + hardening_constant B)
                 else 0))"
proof (cases "newton_loop B E old i t (newton_init B E old i t)")
  case (Inl e)
  then show ?thesis using newton_loop_Inl by blast
next
  case (Inr s)
  let ?s0 = "newton_init B E old i t"
  have entry: "loop_condition B ?s0 \<longleftrightarrow>
      (\<bar>\<bar>t\<bar> - hardening_variable old i - yield_stress B\<bar> > absolute_tolerance B \<or>
       relative_exceeded (\<bar>t\<bar> - hardening_variable old i - yield_stress B) \<bar>t\<bar>
         (relative_tolerance B))"
    by (simp add: loop_condition_def newton_init_def)
  from Inr obtain k where k: "s = (loop_body B E old i t ^^ k) ?s0"
    and stop: "\<not> loop_condition B s"
    and before: "\<forall>j<k. loop_condition B ((loop_body B E old i t ^^ j) ?s0)"
    unfolding newton_loop_Inr_iff by blast
  show ?thesis
  proof (cases k)
    case 0
    with k stop have "\<not> loop_condition B ?s0" and "plastic_strain_increment s = 0"
      by (simp_all add: newton_init_def)
    with Inr entry show ?thesis by simp
  next
    case (Suc m)
    with before have "loop_condition B ((loop_body B E old i t ^^ 0) ?s0)" by blast
    then have en: "loop_condition B ?s0" by simp
    from k Suc have "s = loop_body B E old i t ((loop_body B E old i t ^^ m) ?s0)" by simp
    then have "plastic_strain_increment s =
        (\<bar>t\<bar> - hardening_variable old i - yield_stress B) / (E + hardening_constant B)"
      using linear_loop_body(1) [OF assms(1,2)] by simp
    moreover have "\<bar>t\<bar> - hardening_variable old i - yield_stress B =
        \<bar>t\<bar> - yield_stress B - hardening_variable old i" by simp
    ultimately show ?thesis using Inr en entry by simp
  qed
qed

theorem linear_hardening_closed_form_witness:
  "(\<exists>s. newton_loop (example_beam 1 200 1000 (1 / 10 ^ 10) (1 / 10 ^ 8)) 200000
          (example_props 0 0 0 0) 0 300
          (newton_init (example_beam 1 200 1000 (1 / 10 ^ 10) (1 / 10 ^ 8)) 200000
             (example_props 0 0 0 0) 0 300) = Inr s \<and>
        iteration s = 2 \<and>
        plastic_strain_increment s = (\<bar>300\<bar> - 200 - 0) / (200000 + 1000)) \<and>
   (\<exists>s. newton_loop (example_beam 1 200 1000 (1 / 10 ^ 10) (1 / 10 ^ 8)) 200000
          (example_props 0 0 0 0) 0 (200 + 1 / 10 ^ 11)
          (newton_init (example_beam 1 200 1000 (1 / 10 ^ 10) (1 / 10 ^ 8)) 200000
             (example_props 0 0 0 0) 0 (200 + 1 / 10 ^ 11)) = Inr s \<and>
        iteration s = 0 \<and>
        plastic_strain_increment s = 0)"
  using linear_hardening_closed_form
    [where B = "example_beam 1 200 1000 (1 / 10 ^ 10) (1 / 10 ^ 8)" and E = 200000
       and old = "example_props 0 0 0 0" and i = 0 and t = 300]
    linear_hardening_closed_form
    [where B = "example_beam 1 200 1000 (1 / 10 ^ 10) (1 / 10 ^ 8)" and E = 200000
       and old = "example_props 0 0 0 0" and i = 0 and t = "200 + 1 / 10 ^ 11"]
    example_hardening_run example_accepted_run
  by (simp add: relative_exceeded_def)

text \<open>
  The claim as stated fails when the residual on entry is already within both
  tolerances: for a trial stress of 200 + 1e-11 and yield stress 200 the yield condition
  is exceeded, the loop body never runs and the increment is 0, not the closed form.
\<close>

theorem closed_form_counterexample:
  "\<bar>200 + 1 / 10 ^ 11\<bar> - hardening_variable (example_props 0 0 0 0) 0
     - yield_stress (example_beam 1 200 0 (1 / 10 ^ 10) (1 / 10 ^ 8)) > (0::real) \<and>
   newton_loop (example_beam 1 200 0 (1 / 10 ^ 10) (1 / 10 ^ 8)) 200000
      (example_props 0 0 0 0) 0 (200 + 1 / 10 ^ 11)
      (newton_init (example_beam 1 200 0 (1 / 10 ^ 10) (1 / 10 ^ 8)) 200000
         (example_props 0 0 0 0) 0 (200 + 1 / 10 ^ 11))
   = Inr \<lparr> hardening_variable_i = 0, plastic_strain_increment = 0,
           residual = 1 / 10 ^ 11, reference_residual = 200 + 1 / 10 ^ 11, iteration = 0 \<rparr> \<and>
   (\<bar>200 + 1 / 10 ^ 11\<bar> - yield_stress (example_beam 1 200 0 (1 / 10 ^ 10) (1 / 10 ^ 8))
      - hardening_variable (example_props 0 0 0 0) 0)
     / (200000 + hardening_constant (example_beam 1 200 0 (1 / 10 ^ 10) (1 / 10 ^ 8)))
   \<noteq> (0::real)"
  apply (intro conjI)
    apply simp
   apply (subst newton_loop.simps)
   apply (simp add: newton_init_def loop_condition_def relative_exceeded_def)
  apply simp
  done

section \<open>Properties of the loop over the layers\<close>

lemma layer_Inl: "layer B E si old i z = Inl e \<Longrightarrow> e = MooseException"
  by (auto simp: layer_def Let_def split: if_splits sum.splits dest: newton_loop_Inl)

lemma layers_loop_Inr:
  assumes "layers_loop B E si old th i zm m cur = Inr P" and "zm = z0 + real i * th"
  shows "(\<forall>k. i \<le> k \<and> k < nlayers B \<longrightarrow>
            layer B E si old k (z0 + real k * th + th / 2) =
              Inr \<lparr> new_direct_stress = direct_stress P k,
                    new_plastic_strain = plastic_strain P k,
                    new_hardening_variable = hardening_variable P k \<rparr>) \<and>
         (\<forall>k. k < i \<or> nlayers B \<le> k \<longrightarrow>
            direct_stress P k = direct_stress cur k \<and>
            plastic_strain P k = plastic_strain cur k \<and>
            hardening_variable P k = hardening_variable cur k) \<and>
         stres P = (if i < nlayers B
                    then m + (\<Sum>k = i..<nlayers B.
                                direct_stress P k * width B * (z0 + real k * th + th / 2) * th)
                    else stres cur)"
  using assms
proof (induction B E si old th i zm m cur rule: layers_loop.induct)
  case (1 B E si old th i zm m cur)
  show ?case
  proof (cases "i < nlayers B")
    case False
    with "1.prems"(1) have "P = cur" by (simp add: layers_loop.simps [of B E si old th i zm m cur])
    with False show ?thesis by auto
  next
    case True
    from "1.prems"(1) True obtain v where v: "layer B E si old i (zm + th / 2) = Inr v"
      by (auto simp: layers_loop.simps [of B E si old th i zm m cur] split: sum.splits)
    let ?m' = "m + new_direct_stress v * width B * (zm + th / 2) * th"
    let ?cur' = "cur\<lparr> hardening_variable := (hardening_variable cur)(i := new_hardening_variable v),
                     plastic_strain := (plastic_strain cur)(i := new_plastic_strain v),
                     direct_stress := (direct_stress cur)(i := new_direct_stress v),
                     stres := ?m' \<rparr>"
    have rec: "layers_loop B E si old th (Suc i) (zm + th / 2 + th / 2) ?m' ?cur' = Inr P"
      using "1.prems"(1) True v by (simp add: layers_loop.simps [of B E si old th i zm m cur])
    have zm': "zm + th / 2 + th / 2 = z0 + real (Suc i) * th"
      using "1.prems"(2) by (simp add: algebra_simps)
    note IH = "1.IH" [OF True v rec zm']
    note IH1 = IH [THEN conjunct1, rule_format]
    note IH2 = IH [THEN conjunct2, THEN conjunct1, rule_format]
    note IH3 = IH [THEN conjunct2, THEN conjunct2]
    have zi: "zm + th / 2 = z0 + real i * th + th / 2" using "1.prems"(2) by simp
    have Pi: "direct_stress P i = new_direct_stress v" "plastic_strain P i = new_plastic_strain v"
      "hardening_variable P i = new_hardening_variable v"
      using IH2 [of i] by simp_all
    have A: "layer B E si old k (z0 + real k * th + th / 2) =
              Inr \<lparr> new_direct_stress = direct_stress P k,
                    new_plastic_strain = plastic_strain P k,
                    new_hardening_variable = hardening_variable P k \<rparr>"
      if "i \<le> k" "k < nlayers B" for k
    proof (cases "k = i")
      case True
      with v zi Pi show ?thesis by simp
    next
      case False
      with that have "Suc i \<le> k" by simp
      with IH1 [of k] that show ?thesis by blast
    qed
    have Bk: "direct_stress P k = direct_stress cur k \<and>
            plastic_strain P k = plastic_strain cur k \<and>
            hardening_variable P k = hardening_variable cur k"
      if "k < i \<or> nlayers B \<le> k" for k
    proof -
      from that True have "k \<noteq> i" "k < Suc i \<or> nlayers B \<le> k" by auto
      with IH2 [of k] show ?thesis by simp
    qed
    have C: "stres P = m + (\<Sum>k = i..<nlayers B.
                                direct_stress P k * width B * (z0 + real k * th + th / 2) * th)"
    proof (cases "Suc i < nlayers B")
      case True
      with IH3 have "stres P = ?m' + (\<Sum>k = Suc i..<nlayers B.
                                direct_stress P k * width B * (z0 + real k * th + th / 2) * th)"
        by simp
      with \<open>i < nlayers B\<close> Pi zi show ?thesis
        by (simp add: sum.atLeast_Suc_lessThan)
    next
      case False
      with \<open>i < nlayers B\<close> have N: "nlayers B = Suc i" by simp
      from False IH3 have "stres P = ?m'" by simp
      with N Pi zi show ?thesis by simp
    qed
    from A Bk C True show ?thesis by simp
  qed
qed

lemma layers_loop_Inl_iff:
  assumes "zm = z0 + real i * th"
  shows "layers_loop B E si old th i zm m cur = Inl e \<longleftrightarrow>
           e = MooseException \<and>
           (\<exists>k. i \<le> k \<and> k < nlayers B \<and>
                layer B E si old k (z0 + real k * th + th / 2) = Inl MooseException)"
  using assms
proof (induction B E si old th i zm m cur rule: layers_loop.induct)
  case (1 B E si old th i zm m cur)
  show ?case
  proof (cases "i < nlayers B")
    case False
    then show ?thesis by (auto simp: layers_loop.simps [of B E si old th i zm m cur])
  next
    case True
    have zi: "zm + th / 2 = z0 + real i * th + th / 2" using "1.prems" by simp
    show ?thesis
    proof (cases "layer B E si old i (zm + th / 2)")
      case (Inl e')
      then have e': "e' = MooseException" by (rule layer_Inl)
      have "layers_loop B E si old th i zm m cur = Inl MooseException"
        using True Inl e' by (simp add: layers_loop.simps [of B E si old th i zm m cur])
      moreover have "\<exists>k. i \<le> k \<and> k < nlayers B \<and>
                layer B E si old k (z0 + real k * th + th / 2) = Inl MooseException"
        using True Inl e' zi by (intro exI [of _ i]) simp
      ultimately show ?thesis by auto
    next
      case (Inr v)
      let ?m' = "m + new_direct_stress v * width B * (zm + th / 2) * th"
      let ?cur' = "cur\<lparr> hardening_variable := (hardening_variable cur)(i := new_hardening_variable v),
                     plastic_strain := (plastic_strain cur)(i := new_plastic_strain v),
                     direct_stress := (direct_stress cur)(i := new_direct_stress v),
                     stres := ?m' \<rparr>"
      have step: "layers_loop B E si old th i zm m cur =
                  layers_loop B E si old th (Suc i) (zm + th / 2 + th / 2) ?m' ?cur'"
        using True Inr by (simp add: layers_loop.simps [of B E si old th i zm m cur])
      have zm': "zm + th / 2 + th / 2 = z0 + real (Suc i) * th"
        using "1.prems" by (simp add: algebra_simps)
      note IH = "1.IH" [OF True Inr zm']
      have "(\<exists>k. Suc i \<le> k \<and> k < nlayers B \<and>
                layer B E si old k (z0 + real k * th + th / 2) = Inl MooseException) \<longleftrightarrow>
            (\<exists>k. i \<le> k \<and> k < nlayers B \<and>
                layer B E si old k (z0 + real k * th + th / 2) = Inl MooseException)"
        (is "?L \<longleftrightarrow> ?R")
      proof
        assume ?L then show ?R by (meson Suc_leD)
      next
        assume ?R
        then obtain k where k: "i \<le> k" "k < nlayers B"
          "layer B E si old k (z0 + real k * th + th / 2) = Inl MooseException" by blast
        have "k \<noteq> i" using k(3) Inr zi by auto
        with k(1) have "Suc i \<le> k" by simp
        with k show ?L by blast
      qed
      with IH step show ?thesis by simp
    qed
  qed
qed

lemma z_offset_eq: "- 0.5 * depth B + real k * (depth B / real (nlayers B)) + depth B / real (nlayers B) / 2
   = z_offset B k"
  by (simp add: z_offset_def thickness_def algebra_simps)

lemma computeQpStress_Inr:
  assumes "computeQpStress B E si old cur = Inr P"
  shows "(\<forall>k<nlayers B. layer B E si old k (z_offset B k) =
              Inr \<lparr> new_direct_stress = direct_stress P k,
                    new_plastic_strain = plastic_strain P k,
                    new_hardening_variable = hardening_variable P k \<rparr>)"
    and "(\<forall>k\<ge>nlayers B. direct_stress P k = direct_stress cur k \<and>
            plastic_strain P k = plastic_strain cur k \<and>
            hardening_variable P k = hardening_variable cur k)"
    and "stres P = (if 0 < nlayers B
                    then (\<Sum>k<nlayers B. direct_stress P k * width B * z_offset B k * thickness B)
                    else stres cur)"
proof -
  have zm: "- 0.5 * depth B = - 0.5 * depth B + real (0::nat) * (depth B / real (nlayers B))" by simp
  note L = layers_loop_Inr [OF assms [unfolded computeQpStress_def] zm, unfolded z_offset_eq]
  from L show "(\<forall>k<nlayers B. layer B E si old k (z_offset B k) =
              Inr \<lparr> new_direct_stress = direct_stress P k,
                    new_plastic_strain = plastic_strain P k,
                    new_hardening_variable = hardening_variable P k \<rparr>)" by simp
  from L show "(\<forall>k\<ge>nlayers B. direct_stress P k = direct_stress cur k \<and>
            plastic_strain P k = plastic_strain cur k \<and>
            hardening_variable P k = hardening_variable cur k)" by simp
  from L show "stres P = (if 0 < nlayers B
                    then (\<Sum>k<nlayers B. direct_stress P k * width B * z_offset B k * thickness B)
                    else stres cur)"
    by (simp add: thickness_def atLeast0LessThan)
qed

lemma computeQpStress_Inl_iff:
  "computeQpStress B E si old cur = Inl e \<longleftrightarrow>
     e = MooseException \<and>
     (\<exists>k<nlayers B. layer B E si old k (z_offset B k) = Inl MooseException)"
proof -
  have zm: "- 0.5 * depth B = - 0.5 * depth B + real (0::nat) * (depth B / real (nlayers B))" by simp
  show ?thesis
    unfolding computeQpStress_def layers_loop_Inl_iff [OF zm] z_offset_eq by simp
qed

lemma layer_Inl_iff:
  "layer B E si old i z = Inl e \<longleftrightarrow>
     \<bar>direct_stress old i + E * si * z\<bar> - hardening_variable old i - yield_stress B > 0 \<and>
     newton_loop B E old i (direct_stress old i + E * si * z)
       (newton_init B E old i (direct_stress old i + E * si * z)) = Inl e"
  by (auto simp: layer_def Let_def split: sum.splits)

lemma iteration_newton_init [simp]: "iteration (newton_init B E old i t) = 0"
  by (simp add: newton_init_def)

lemma abs_gt_minus_one: "\<bar>x::real\<bar> > - 1"
  by linarith

text \<open>
  C4.  The constructor fixes \<open>max_its\<close> at 1000.  The solve of a layer ends with the
  exception exactly when the loop condition holds at the entry state and at each of the
  first \<open>max_its\<close> iterates (the throw comes in the iteration after that); when it
  returns a state, the tolerances are met there and at most \<open>max_its\<close> iterations were
  made.  The exception of a layer is not caught: \<open>layer\<close> fails exactly when its solve
  does, and \<open>computeQpStress\<close> fails, with that exception, exactly when some layer does.
\<close>

theorem newton_iteration_cap:
  "(LayeredBeam p = Inr B' \<longrightarrow> max_its B' = 1000) \<and>
   (newton_loop B E old i t (newton_init B E old i t) = Inl e \<longleftrightarrow>
      e = MooseException \<and>
      (\<forall>k\<le>max_its B. loop_condition B ((loop_body B E old i t ^^ k) (newton_init B E old i t)))) \<and>
   (\<forall>s. newton_loop B E old i t (newton_init B E old i t) = Inr s \<longrightarrow>
        \<not> loop_condition B s \<and> iteration s \<le> max_its B) \<and>
   (layer B E si old i z = Inl e \<longleftrightarrow>
      \<bar>direct_stress old i + E * si * z\<bar> - hardening_variable old i - yield_stress B > 0 \<and>
      newton_loop B E old i (direct_stress old i + E * si * z)
        (newton_init B E old i (direct_stress old i + E * si * z)) = Inl e) \<and>
   (computeQpStress B E si old cur = Inl e \<longleftrightarrow>
      e = MooseException \<and>
      (\<exists>k<nlayers B. layer B E si old k (z_offset B k) = Inl MooseException))"
proof (intro conjI)
  show "LayeredBeam p = Inr B' \<longrightarrow> max_its B' = 1000"
    by (auto simp: LayeredBeam_def split: if_splits)
  have bound: "(k = 0 \<or> iteration (newton_init B E old i t) + k \<le> max_its B) \<longleftrightarrow> k \<le> max_its B"
    for k by auto
  show "newton_loop B E old i t (newton_init B E old i t) = Inl e \<longleftrightarrow>
      e = MooseException \<and>
      (\<forall>k\<le>max_its B. loop_condition B ((loop_body B E old i t ^^ k) (newton_init B E old i t)))"
    using newton_loop_fails_iff [of B E old i t "newton_init B E old i t", unfolded bound]
      newton_loop_Inl [of B E old i t "newton_init B E old i t" e]
    by auto
  show "\<forall>s. newton_loop B E old i t (newton_init B E old i t) = Inr s \<longrightarrow>
        \<not> loop_condition B s \<and> iteration s \<le> max_its B"
    using newton_loop_exit [of B E old i t "newton_init B E old i t"]
      newton_loop_iteration [of B E old i t "newton_init B E old i t"]
    by simp
  show "layer B E si old i z = Inl e \<longleftrightarrow>
      \<bar>direct_stress old i + E * si * z\<bar> - hardening_variable old i - yield_stress B > 0 \<and>
      newton_loop B E old i (direct_stress old i + E * si * z)
        (newton_init B E old i (direct_stress old i + E * si * z)) = Inl e"
    by (rule layer_Inl_iff)
  show "computeQpStress B E si old cur = Inl e \<longleftrightarrow>
      e = MooseException \<and>
      (\<exists>k<nlayers B. layer B E si old k (z_offset B k) = Inl MooseException)"
    by (rule computeQpStress_Inl_iff)
qed

theorem newton_iteration_cap_witness:
  "computeQpStress (example_beam 1 200 0 (- 1) (1 / 10 ^ 8)) 200000 0
     (example_props 300 0 0 0) (example_props 0 0 0 0) = Inl MooseException"
proof -
  let ?B = "example_beam 1 200 0 (- 1) (1 / 10 ^ 8)"
  let ?old = "example_props 300 0 0 0"
  note cap = newton_iteration_cap [where B = ?B and E = 200000 and old = ?old and i = 0
      and e = MooseException and si = 0 and z = "z_offset ?B 0"
      and t = "direct_stress ?old 0 + 200000 * 0 * z_offset ?B 0"]
  have "newton_loop ?B 200000 ?old 0 (direct_stress ?old 0 + 200000 * 0 * z_offset ?B 0)
          (newton_init ?B 200000 ?old 0 (direct_stress ?old 0 + 200000 * 0 * z_offset ?B 0))
        = Inl MooseException"
    by (rule iffD2 [OF cap [THEN conjunct2, THEN conjunct1]])
       (simp add: loop_condition_def abs_gt_minus_one)
  then have "layer ?B 200000 0 ?old 0 (z_offset ?B 0) = Inl MooseException"
    by (intro iffD2 [OF cap [THEN conjunct2, THEN conjunct2, THEN conjunct2, THEN conjunct1]])
       simp
  then show ?thesis
    by (intro iffD2 [OF cap [THEN conjunct2, THEN conjunct2, THEN conjunct2, THEN conjunct2]])
       simp
qed

lemma thickness_tiles: "1 \<le> nlayers B \<Longrightarrow> real (nlayers B) * thickness B = depth B"
  by (simp add: thickness_def)

lemma z_offset_Suc: "z_offset B (Suc k) = z_offset B k + thickness B"
  by (simp add: z_offset_def algebra_simps)

lemma z_offset_mono:
  assumes "0 < depth B" and "1 \<le> nlayers B" and "j < k"
  shows "z_offset B j < z_offset B k"
proof -
  have "0 < thickness B" using assms(1,2) by (simp add: thickness_def)
  moreover have "real j < real k" using assms(3) by simp
  ultimately have "real j * thickness B < real k * thickness B" by simp
  then show ?thesis by (simp add: z_offset_def algebra_simps)
qed

lemma example_stress_run:
  "computeQpStress (example_beam 2 200 0 (1 / 10 ^ 10) (1 / 10 ^ 8)) 200000 (1 / 1000)
     (example_props 0 0 0 0) (example_props 0 0 0 0) =
   Inr \<lparr> direct_stress = (\<lambda>_. 0)(0 := - 50, Suc 0 := 50),
         plastic_strain = (\<lambda>_. 0)(0 := 0, Suc 0 := 0),
         hardening_variable = (\<lambda>_. 0)(0 := 0, Suc 0 := 0),
         stres = 25 / 2 \<rparr>"
  unfolding computeQpStress_def
  apply (subst layers_loop.simps)
  apply (subst layers_loop.simps)
  apply (subst layers_loop.simps)
  apply (simp add: layer_def Let_def example_props_def)
  done

text \<open>
  C6.  For \<open>N \<ge> 1\<close> layers: the layers have thickness \<open>depth / N\<close> and tile the depth
  from \<open>- depth / 2\<close> to \<open>depth / 2\<close>; \<open>z_offset k\<close> is the midpoint of layer \<open>k\<close>, and the
  offsets increase with \<open>k\<close> (for a positive depth), so the loop, which runs
  \<open>k = 0, 1, ...\<close>, goes from the most negative to the most positive.  A call either ends
  with the exception of a layer whose solve did not converge, or it returns; then the
  values of each layer are those of the loop body run at the midpoint of the layer, and
  the resultant is the sum of \<open>direct_stress k * width * z_offset k * thickness\<close>.
\<close>

theorem stress_resultant_midpoint_rule:
  assumes "1 \<le> nlayers B"
  shows "real (nlayers B) * thickness B = depth B \<and>
         - depth B / 2 + real (nlayers B) * thickness B = depth B / 2 \<and>
         (\<forall>k. z_offset B k = ((- depth B / 2 + real k * thickness B) +
                               (- depth B / 2 + real (Suc k) * thickness B)) / 2) \<and>
         (0 < depth B \<longrightarrow> (\<forall>j k. j < k \<longrightarrow> z_offset B j < z_offset B k)) \<and>
         ((computeQpStress B E si old cur = Inl MooseException \<and>
           (\<exists>k<nlayers B. layer B E si old k (z_offset B k) = Inl MooseException)) \<or>
          (\<exists>P. computeQpStress B E si old cur = Inr P \<and>
               (\<forall>k<nlayers B.
                  layer B E si old k (z_offset B k) =
                    Inr \<lparr> new_direct_stress = direct_stress P k,
                          new_plastic_strain = plastic_strain P k,
                          new_hardening_variable = hardening_variable P k \<rparr>) \<and>
               stres P =
                 (\<Sum>k<nlayers B. direct_stress P k * width B * z_offset B k * thickness B)))"
proof (intro conjI)
  show "real (nlayers B) * thickness B = depth B" using assms by (rule thickness_tiles)
  then show "- depth B / 2 + real (nlayers B) * thickness B = depth B / 2" by simp
  show "\<forall>k. z_offset B k = ((- depth B / 2 + real k * thickness B) +
                               (- depth B / 2 + real (Suc k) * thickness B)) / 2"
    by (simp add: z_offset_def algebra_simps)
  show "0 < depth B \<longrightarrow> (\<forall>j k. j < k \<longrightarrow> z_offset B j < z_offset B k)"
    using z_offset_mono [OF _ assms] by blast
  show "(computeQpStress B E si old cur = Inl MooseException \<and>
           (\<exists>k<nlayers B. layer B E si old k (z_offset B k) = Inl MooseException)) \<or>
          (\<exists>P. computeQpStress B E si old cur = Inr P \<and>
               (\<forall>k<nlayers B.
                  layer B E si old k (z_offset B k) =
                    Inr \<lparr> new_direct_stress = direct_stress P k,
                          new_plastic_strain = plastic_strain P k,
                          new_hardening_variable = hardening_variable P k \<rparr>) \<and>
               stres P =
                 (\<Sum>k<nlayers B. direct_stress P k * width B * z_offset B k * thickness B))"
  proof (cases "computeQpStress B E si old cur")
    case (Inl e)
    then show ?thesis using computeQpStress_Inl_iff [of B E si old cur e] by simp
  next
    case (Inr P)
    from computeQpStress_Inr(1,3) [OF Inr] assms Inr show ?thesis by simp
  qed
qed

theorem stress_resultant_midpoint_rule_witness:
  "\<exists>P. computeQpStress (example_beam 2 200 0 (1 / 10 ^ 10) (1 / 10 ^ 8)) 200000 (1 / 1000)
          (example_props 0 0 0 0) (example_props 0 0 0 0) = Inr P \<and>
       direct_stress P 0 = - 50 \<and> direct_stress P 1 = 50 \<and>
       z_offset (example_beam 2 200 0 (1 / 10 ^ 10) (1 / 10 ^ 8)) 0 = - 1 / 4 \<and>
       z_offset (example_beam 2 200 0 (1 / 10 ^ 10) (1 / 10 ^ 8)) 1 = 1 / 4 \<and>
       stres P = (\<Sum>k<nlayers (example_beam 2 200 0 (1 / 10 ^ 10) (1 / 10 ^ 8)).
                    direct_stress P k * width (example_beam 2 200 0 (1 / 10 ^ 10) (1 / 10 ^ 8))
                      * z_offset (example_beam 2 200 0 (1 / 10 ^ 10) (1 / 10 ^ 8)) k
                      * thickness (example_beam 2 200 0 (1 / 10 ^ 10) (1 / 10 ^ 8))) \<and>
       stres P = 25 / 2"
proof -
  let ?B = "example_beam 2 200 0 (1 / 10 ^ 10) (1 / 10 ^ 8)"
  have N: "1 \<le> nlayers ?B" by simp
  note rule = stress_resultant_midpoint_rule [OF N, of 200000 "1 / 1000" "example_props 0 0 0 0"
      "example_props 0 0 0 0", THEN conjunct2, THEN conjunct2, THEN conjunct2, THEN conjunct2]
  from rule example_stress_run
  obtain P where P: "computeQpStress ?B 200000 (1 / 1000) (example_props 0 0 0 0)
          (example_props 0 0 0 0) = Inr P"
    and mom: "stres P = (\<Sum>k<nlayers ?B. direct_stress P k * width ?B * z_offset ?B k * thickness ?B)"
    by auto
  from P example_stress_run have "P = \<lparr> direct_stress = (\<lambda>_. 0)(0 := - 50, Suc 0 := 50),
         plastic_strain = (\<lambda>_. 0)(0 := 0, Suc 0 := 0),
         hardening_variable = (\<lambda>_. 0)(0 := 0, Suc 0 := 0),
         stres = 25 / 2 \<rparr>" by simp
  then have vals: "direct_stress P 0 = - 50" "direct_stress P 1 = 50" "stres P = 25 / 2"
    by simp_all
  have z: "z_offset ?B 0 = - 1 / 4" "z_offset ?B 1 = 1 / 4"
    by (simp_all add: z_offset_def thickness_def)
  from P mom vals z show ?thesis by blast
qed

section \<open>Calls with zero increments\<close>

lemma mat_vec_zero [simp]: "mat_vec R (0, 0, 0) = (0, 0, 0)"
proof -
  obtain a b c d e f g h k where "R = ((a, b, c), (d, e, f), (g, h, k))"
    by (metis surj_pair)
  then show ?thesis by simp
qed

lemma zero_rotations_no_stretch:
  assumes "rot0 I = (0, 0, 0)" "rot1 I = (0, 0, 0)"
  shows "snd (snd (fst (snd (local_gradients I)))) = 0"
  using assms by (simp add: local_gradients_def Let_def)

lemma layer_unchanged:
  assumes "admissible B old k"
  shows "layer B E 0 old k z =
           Inr \<lparr> new_direct_stress = direct_stress old k,
                 new_plastic_strain = plastic_strain old k,
                 new_hardening_variable = hardening_variable old k \<rparr>"
proof (cases "\<bar>direct_stress old k\<bar> - hardening_variable old k - yield_stress B \<le> 0")
  case True
  then show ?thesis by (simp add: layer_def Let_def)
next
  case False
  with assms have "\<not> loop_condition B (newton_init B E old k (direct_stress old k))"
    by (simp add: admissible_def loop_condition_def newton_init_def)
  then have "newton_loop B E old k (direct_stress old k) (newton_init B E old k (direct_stress old k))
             = Inr (newton_init B E old k (direct_stress old k))"
    by (subst newton_loop.simps) simp
  with False show ?thesis by (simp add: layer_def Let_def newton_init_def)
qed

lemma computeQpStress_total:
  "(\<exists>e. computeQpStress B E si old cur = Inl e) \<or> (\<exists>P. computeQpStress B E si old cur = Inr P)"
  by (cases "computeQpStress B E si old cur") auto

lemma computeQpStress_unchanged:
  assumes "\<forall>k<nlayers B. admissible B old k"
  shows "\<exists>P. computeQpStress B E 0 old cur = Inr P \<and>
           (\<forall>k<nlayers B. direct_stress P k = direct_stress old k \<and>
                           plastic_strain P k = plastic_strain old k \<and>
                           hardening_variable P k = hardening_variable old k) \<and>
           (1 \<le> nlayers B \<longrightarrow>
              stres P = (\<Sum>k<nlayers B. direct_stress old k * width B * z_offset B k * thickness B))"
proof -
  have lay: "layer B E 0 old k z =
           Inr \<lparr> new_direct_stress = direct_stress old k,
                 new_plastic_strain = plastic_strain old k,
                 new_hardening_variable = hardening_variable old k \<rparr>" if "k < nlayers B" for k z
    using assms that by (intro layer_unchanged) blast
  have "\<not> (\<exists>e. computeQpStress B E 0 old cur = Inl e)"
    unfolding computeQpStress_Inl_iff using lay by auto
  then obtain P where P: "computeQpStress B E 0 old cur = Inr P"
    using computeQpStress_total [of B E 0 old cur] by blast
  have same: "direct_stress P k = direct_stress old k \<and>
              plastic_strain P k = plastic_strain old k \<and>
              hardening_variable P k = hardening_variable old k" if "k < nlayers B" for k
    using computeQpStress_Inr(1) [OF P, rule_format, OF that] lay [OF that, of "z_offset B k"]
    by simp
  have "stres P = (\<Sum>k<nlayers B. direct_stress old k * width B * z_offset B k * thickness B)"
    if "1 \<le> nlayers B"
  proof -
    have "stres P = (\<Sum>k<nlayers B. direct_stress P k * width B * z_offset B k * thickness B)"
      using computeQpStress_Inr(3) [OF P] that by simp
    also have "\<dots> = (\<Sum>k<nlayers B. direct_stress old k * width B * z_offset B k * thickness B)"
      by (rule sum.cong) (simp_all add: same)
    finally show ?thesis .
  qed
  with P same show ?thesis by blast
qed

lemma computeQpStrain_Inr:
  assumes "computeQpStrain B I = Inr out"
  shows "computeQpStress B (snd (snd (material_flexure I)))
            (snd (snd (fst (snd (local_gradients I))))) (old_props I) (cur_props I)
          = Inr (new_props out)"
    and "total_stretch out = snd (snd (fst (snd (local_gradients I))))"
    and "effective_stiffness out = effective_stiffness_of B I"
    and "total_disp_strain out =
           vadd (mat_vec (transpose_t (total_rotation I)) (fst (strain_increments B I)))
                (total_disp_strain_old I)"
    and "total_rot_strain out =
           vadd (mat_vec (transpose_t (total_rotation I)) (snd (strain_increments B I)))
                (total_disp_strain_old I)"
    and "(mech_disp_strain_increment out, mech_rot_strain_increment out) =
           remove_eigenstrains B I (eigenstrains I) (strain_increments B I)"
  using assms
  by (auto simp: computeQpStrain_def Let_def split: prod.splits sum.splits)

lemma computeQpStrain_returns:
  assumes "computeQpStress B (snd (snd (material_flexure I)))
            (snd (snd (fst (snd (local_gradients I))))) (old_props I) (cur_props I) = Inr P"
  shows "\<exists>out. computeQpStrain B I = Inr out"
  using assms
  by (auto simp: computeQpStrain_def Let_def split: prod.splits sum.splits)

lemma example_input_simps [simp]:
  "qp (example_input a b old) = 0"
  "original_length (example_input a b old) = 1"
  "total_rotation (example_input a b old) = ((1, 0, 0), (0, 1, 0), (0, 0, 1))"
  "disp0 (example_input a b old) = (0, 0, 0)"
  "disp1 (example_input a b old) = (0, 0, 0)"
  "rot0 (example_input a b old) = (0, 0, 0)"
  "rot1 (example_input a b old) = (0, 0, 0)"
  "material_stiffness (example_input a b old) = (4, 1, 1)"
  "material_flexure (example_input a b old) = (1, 1, 1)"
  "total_disp_strain_old (example_input a b old) = a"
  "total_rot_strain_old (example_input a b old) = b"
  "eigenstrains (example_input a b old) = []"
  "cur_time (example_input a b old) = 0"
  "q_point (example_input a b old) = (0, 0, 0)"
  "old_props (example_input a b old) = old"
  "cur_props (example_input a b old) = example_props 0 0 0 0"
  by (simp_all add: example_input_def)

lemma example_local_gradients [simp]:
  "local_gradients (example_input a b old) = ((0, 0, 0), (0, 0, 0), (0, 0, 0))"
  by (simp add: local_gradients_def)

lemma example_strain_increments [simp]:
  "strain_increments (example_beam n Y K atol rtol) (example_input a b old) =
     ((0, 0, 0), (0, 0, 0))"
  by (simp add: strain_increments_def small_strain_def large_strain_terms_def)

lemma example_call:
  assumes "computeQpStress B 1 0 old (example_props 0 0 0 0) = Inr P"
  shows "\<exists>out. computeQpStrain B (example_input a b old) = Inr out \<and> new_props out = P"
proof -
  let ?I = "example_input a b old"
  have run: "computeQpStress B (snd (snd (material_flexure ?I)))
            (snd (snd (fst (snd (local_gradients ?I))))) (old_props ?I) (cur_props ?I) = Inr P"
    using assms by simp
  then obtain out where out: "computeQpStrain B ?I = Inr out"
    using computeQpStrain_returns by blast
  from computeQpStrain_Inr(1) [OF out] run have "new_props out = P" by simp
  with out show ?thesis by blast
qed

lemma example_softening_beam_simps [simp]:
  "nlayers example_softening_beam = 2"
  "width example_softening_beam = 1"
  "depth example_softening_beam = 1"
  "yield_stress example_softening_beam = 1"
  "hardening_constant example_softening_beam = - 1 / 2"
  "hardening_function example_softening_beam = None"
  "absolute_tolerance example_softening_beam = 1 / 10 ^ 10"
  "relative_tolerance example_softening_beam = 1 / 10 ^ 8"
  "max_its example_softening_beam = 1000"
  by (simp_all add: example_softening_beam_def)

lemma example_plastic_beam_simps [simp]:
  "nlayers example_plastic_beam = 2"
  "width example_plastic_beam = 1"
  "depth example_plastic_beam = 1"
  "yield_stress example_plastic_beam = 1"
  "hardening_constant example_plastic_beam = 0"
  "hardening_function example_plastic_beam = None"
  "absolute_tolerance example_plastic_beam = 1 / 10 ^ 10"
  "relative_tolerance example_plastic_beam = 1 / 10 ^ 8"
  "max_its example_plastic_beam = 1000"
  by (simp_all add: example_plastic_beam_def)

lemmas newton_eval = newton_init_def loop_body_def loop_condition_def relative_exceeded_def
  computeHardeningValue_def computeHardeningDerivative_def Let_def sign_def

lemma softening_first_layers:
  "layer example_softening_beam 1 40 (example_props 0 0 0 0) 0 (- (1 / 4)) =
     Inr \<lparr> new_direct_stress = 8, new_plastic_strain = - 18, new_hardening_variable = - 9 \<rparr>"
  "layer example_softening_beam 1 40 (example_props 0 0 0 0) (Suc 0) (1 / 4) =
     Inr \<lparr> new_direct_stress = - 8, new_plastic_strain = 18, new_hardening_variable = - 9 \<rparr>"
   apply (simp add: layer_def Let_def)
   apply (subst newton_loop.simps)
   apply (subst newton_loop.simps)
   apply (subst newton_loop.simps)
   apply (simp add: newton_eval)
  apply (simp add: layer_def Let_def)
  apply (subst newton_loop.simps)
  apply (subst newton_loop.simps)
  apply (subst newton_loop.simps)
  apply (simp add: newton_eval)
  done

lemma softening_first_run:
  "computeQpStress example_softening_beam 1 40 (example_props 0 0 0 0) (example_props 0 0 0 0) =
     Inr example_softened_props"
  unfolding computeQpStress_def
  apply (subst layers_loop.simps)
  apply (subst layers_loop.simps)
  apply (subst layers_loop.simps)
  apply (simp add: softening_first_layers)
  apply (simp add: example_softened_props_def example_props_def)
  done

lemma softening_second_layers:
  "layer example_softening_beam 1 0 example_softened_props 0 (- (1 / 4)) =
     Inr \<lparr> new_direct_stress = - 24, new_plastic_strain = 14, new_hardening_variable = - 25 \<rparr>"
  "layer example_softening_beam 1 0 example_softened_props (Suc 0) (1 / 4) =
     Inr \<lparr> new_direct_stress = 24, new_plastic_strain = - 14, new_hardening_variable = - 25 \<rparr>"
   apply (simp add: layer_def Let_def example_softened_props_def)
   apply (subst newton_loop.simps)
   apply (subst newton_loop.simps)
   apply (subst newton_loop.simps)
   apply (simp add: newton_eval)
  apply (simp add: layer_def Let_def example_softened_props_def)
  apply (subst newton_loop.simps)
  apply (subst newton_loop.simps)
  apply (subst newton_loop.simps)
  apply (simp add: newton_eval)
  done

lemma softening_second_run:
  "computeQpStress example_softening_beam 1 0 example_softened_props (example_props 0 0 0 0) =
     Inr \<lparr> direct_stress = (\<lambda>_. 0)(0 := - 24, Suc 0 := 24),
           plastic_strain = (\<lambda>_. 0)(0 := 14, Suc 0 := - 14),
           hardening_variable = (\<lambda>_. 0)(0 := - 25, Suc 0 := - 25),
           stres = 6 \<rparr>"
  unfolding computeQpStress_def
  apply (subst layers_loop.simps)
  apply (subst layers_loop.simps)
  apply (subst layers_loop.simps)
  apply (simp add: softening_second_layers)
  apply (simp add: example_props_def)
  done

lemma plastic_first_layers:
  "layer example_plastic_beam 1 40 (example_props 0 0 0 0) 0 (- (1 / 4)) =
     Inr \<lparr> new_direct_stress = - 1, new_plastic_strain = - 9, new_hardening_variable = 0 \<rparr>"
  "layer example_plastic_beam 1 40 (example_props 0 0 0 0) (Suc 0) (1 / 4) =
     Inr \<lparr> new_direct_stress = 1, new_plastic_strain = 9, new_hardening_variable = 0 \<rparr>"
   apply (simp add: layer_def Let_def)
   apply (subst newton_loop.simps)
   apply (subst newton_loop.simps)
   apply (simp add: newton_eval)
  apply (simp add: layer_def Let_def)
  apply (subst newton_loop.simps)
  apply (subst newton_loop.simps)
  apply (simp add: newton_eval)
  done

lemma plastic_first_run:
  "computeQpStress example_plastic_beam 1 40 (example_props 0 0 0 0) (example_props 0 0 0 0) =
     Inr example_yielded_props"
  unfolding computeQpStress_def
  apply (subst layers_loop.simps)
  apply (subst layers_loop.simps)
  apply (subst layers_loop.simps)
  apply (simp add: plastic_first_layers)
  apply (simp add: example_yielded_props_def example_props_def)
  done

lemma example_bend_gradients:
  "local_gradients example_bend_input = ((0, 0, 0), (0, 0, 40), (0, 0, 20))"
  by (simp add: local_gradients_def example_bend_input_def)

lemma example_bend_call:
  assumes "computeQpStress B 1 40 (example_props 0 0 0 0) (example_props 0 0 0 0) = Inr P"
    and "\<not> has_Ix B" "\<not> large_strain B"
    and "area B 0 = 1" "Ay B 0 = 0" "Az B 0 = 0" "Iy B 0 = 1" "Iz B 0 = 1"
  shows "\<exists>out. computeQpStrain B example_bend_input = Inr out \<and> new_props out = P \<and>
           total_disp_strain out = (0, - 20, 0) \<and> total_rot_strain out = (0, 0, 40)"
proof -
  let ?I = "example_bend_input"
  have run: "computeQpStress B (snd (snd (material_flexure ?I)))
            (snd (snd (fst (snd (local_gradients ?I))))) (old_props ?I) (cur_props ?I) = Inr P"
    using assms(1) by (simp add: example_bend_gradients) (simp add: example_bend_input_def)
  then obtain out where out: "computeQpStrain B ?I = Inr out"
    using computeQpStrain_returns by blast
  have inc: "strain_increments B ?I = ((0, - 20, 0), (0, 0, 40))"
    using assms(2-)
    by (simp add: strain_increments_def example_bend_gradients small_strain_def
        large_strain_terms_def Let_def)
       (simp add: example_bend_input_def)
  from computeQpStrain_Inr(1) [OF out] run have "new_props out = P" by simp
  moreover from computeQpStrain_Inr(4,5) [OF out] inc
  have "total_disp_strain out = (0, - 20, 0)" "total_rot_strain out = (0, 0, 40)"
    by (simp_all add: example_bend_input_def)
  ultimately show ?thesis using out by blast
qed

lemma example_rest_input_simps [simp]:
  "old_props (example_rest_input old) = old"
  "disp0 (example_rest_input old) = (0, 0, 0)"
  "disp1 (example_rest_input old) = (0, 0, 0)"
  "rot0 (example_rest_input old) = (0, 0, 0)"
  "rot1 (example_rest_input old) = (0, 0, 0)"
  "original_length (example_rest_input old) = 1"
  "total_disp_strain_old (example_rest_input old) = (0, - 20, 0)"
  "total_rot_strain_old (example_rest_input old) = (0, 0, 40)"
  by (simp_all add: example_rest_input_def)

text \<open>
  C7 (as amended).  Let the previous state be the one that a call has returned, for a
  beam of at least one layer.  If the increments at both nodes are zero (the element
  having a non-zero length) and every layer of the previous state is admissible, meaning
  that its yield condition \<open>|stress| - hardening - yield_stress\<close> is not exceeded or is
  exceeded by an amount that already meets both tolerances, then the call returns, the
  curvature increment is zero, and every layer's direct stress, plastic strain and
  hardening variable and the stress resultant equal their previous-step values.
\<close>

theorem zero_increment_keeps_admissible_state:
  assumes "computeQpStrain B I0 = Inr out0"
    and "old_props I = new_props out0"
    and "1 \<le> nlayers B"
    and "disp0 I = (0, 0, 0)" and "disp1 I = (0, 0, 0)"
    and "rot0 I = (0, 0, 0)" and "rot1 I = (0, 0, 0)"
    and "original_length I \<noteq> 0"
    and "\<forall>k<nlayers B. admissible B (new_props out0) k"
  shows "\<exists>out. computeQpStrain B I = Inr out \<and>
           total_stretch out = 0 \<and>
           (\<forall>k<nlayers B.
              direct_stress (new_props out) k = direct_stress (new_props out0) k \<and>
              plastic_strain (new_props out) k = plastic_strain (new_props out0) k \<and>
              hardening_variable (new_props out) k = hardening_variable (new_props out0) k) \<and>
           stres (new_props out) = stres (new_props out0)"
proof -
  let ?P0 = "new_props out0"
  have st: "snd (snd (fst (snd (local_gradients I)))) = 0"
    using assms(6,7) by (rule zero_rotations_no_stretch)
  have mom0: "stres ?P0 =
      (\<Sum>k<nlayers B. direct_stress ?P0 k * width B * z_offset B k * thickness B)"
    using computeQpStress_Inr(3) [OF computeQpStrain_Inr(1) [OF assms(1)]] assms(3) by simp
  from computeQpStress_unchanged [OF assms(9), of "snd (snd (material_flexure I))" "cur_props I"]
  obtain P where P: "computeQpStress B (snd (snd (material_flexure I))) 0 ?P0 (cur_props I) = Inr P"
    and same: "\<forall>k<nlayers B. direct_stress P k = direct_stress ?P0 k \<and>
                           plastic_strain P k = plastic_strain ?P0 k \<and>
                           hardening_variable P k = hardening_variable ?P0 k"
    and mom: "1 \<le> nlayers B \<longrightarrow>
              stres P = (\<Sum>k<nlayers B. direct_stress ?P0 k * width B * z_offset B k * thickness B)"
    by blast
  from P st assms(2) obtain out where out: "computeQpStrain B I = Inr out"
    using computeQpStrain_returns [of B I P] by auto
  from computeQpStrain_Inr(1,2) [OF out] P st assms(2)
  have "new_props out = P" "total_stretch out = 0"
    by simp_all
  with out same mom mom0 assms(3) show ?thesis by auto
qed

theorem zero_increment_keeps_admissible_state_witness:
  "\<exists>out0 out.
      computeQpStrain example_plastic_beam example_bend_input = Inr out0 \<and>
      new_props out0 = example_yielded_props \<and>
      computeQpStrain example_plastic_beam (example_rest_input (new_props out0)) = Inr out \<and>
      direct_stress (new_props out) 0 = - 1 \<and> direct_stress (new_props out) 1 = 1 \<and>
      plastic_strain (new_props out) 0 = - 9 \<and> plastic_strain (new_props out) 1 = 9 \<and>
      stres (new_props out) = 1 / 4"
proof -
  from example_bend_call [OF plastic_first_run]
  obtain out0 where out0: "computeQpStrain example_plastic_beam example_bend_input = Inr out0"
    and P0: "new_props out0 = example_yielded_props"
    by (auto simp: example_plastic_beam_def)
  have adm: "\<forall>k<nlayers example_plastic_beam. admissible example_plastic_beam (new_props out0) k"
    by (simp add: P0 admissible_def example_yielded_props_def numeral_2_eq_2 less_Suc_eq)
  from zero_increment_keeps_admissible_state
    [OF out0, where I = "example_rest_input (new_props out0)", OF _ _ _ _ _ _ _ adm]
  obtain out where out: "computeQpStrain example_plastic_beam (example_rest_input (new_props out0)) = Inr out"
    and same: "\<forall>k<nlayers example_plastic_beam.
              direct_stress (new_props out) k = direct_stress (new_props out0) k \<and>
              plastic_strain (new_props out) k = plastic_strain (new_props out0) k \<and>
              hardening_variable (new_props out) k = hardening_variable (new_props out0) k"
    and mom: "stres (new_props out) = stres (new_props out0)"
    by auto
  from same have "direct_stress (new_props out) 0 = direct_stress (new_props out0) 0"
    "direct_stress (new_props out) 1 = direct_stress (new_props out0) 1"
    "plastic_strain (new_props out) 0 = plastic_strain (new_props out0) 0"
    "plastic_strain (new_props out) 1 = plastic_strain (new_props out0) 1"
    by simp_all
  with mom P0 out0 out show ?thesis
    by (auto simp: example_yielded_props_def)
qed

text \<open>
  The claim as stated fails for a previous state that the code itself has produced.  On
  the softening beam the first call (trial stress 10 in layer 1) returns that layer with
  stress -8, plastic strain 18 and hardening -9, and the resultant -2; its yield
  condition 8 + 9 - 1 = 16 is exceeded.  The call that follows with zero increments
  returns the layer with stress 24 and plastic strain -14, and the resultant 6.
\<close>

theorem zero_increment_counterexample:
  "map_sum id (\<lambda>out. (new_props out, total_disp_strain out, total_rot_strain out))
     (computeQpStrain example_softening_beam example_bend_input)
   = Inr (example_softened_props, (0, - 20, 0), (0, 0, 40)) \<and>
   old_props (example_rest_input example_softened_props) = example_softened_props \<and>
   total_disp_strain_old (example_rest_input example_softened_props) = (0, - 20, 0) \<and>
   total_rot_strain_old (example_rest_input example_softened_props) = (0, 0, 40) \<and>
   disp0 (example_rest_input example_softened_props) = (0, 0, 0) \<and>
   disp1 (example_rest_input example_softened_props) = (0, 0, 0) \<and>
   rot0 (example_rest_input example_softened_props) = (0, 0, 0) \<and>
   rot1 (example_rest_input example_softened_props) = (0, 0, 0) \<and>
   direct_stress example_softened_props 1 = - 8 \<and>
   plastic_strain example_softened_props 1 = 18 \<and>
   stres example_softened_props = - 2 \<and>
   map_sum id (\<lambda>out. (direct_stress (new_props out) 1, plastic_strain (new_props out) 1,
                      stres (new_props out)))
     (computeQpStrain example_softening_beam (example_rest_input example_softened_props))
   = Inr (24, - 14, 6)"
proof -
  from example_bend_call [OF softening_first_run]
  obtain out0 where out0: "computeQpStrain example_softening_beam example_bend_input = Inr out0"
    and P0: "new_props out0 = example_softened_props"
    and tot: "total_disp_strain out0 = (0, - 20, 0)" "total_rot_strain out0 = (0, 0, 40)"
    by (auto simp: example_softening_beam_def)
  from example_call [OF softening_second_run, of "(0, - 20, 0)" "(0, 0, 40)"]
  obtain out where out: "computeQpStrain example_softening_beam
       (example_rest_input example_softened_props) = Inr out"
    and P: "new_props out = \<lparr> direct_stress = (\<lambda>_. 0)(0 := - 24, Suc 0 := 24),
           plastic_strain = (\<lambda>_. 0)(0 := 14, Suc 0 := - 14),
           hardening_variable = (\<lambda>_. 0)(0 := - 25, Suc 0 := - 25),
           stres = 6 \<rparr>"
    by (auto simp: example_rest_input_def)
  show ?thesis
    using out0 P0 tot out P by (simp add: example_softened_props_def)
qed

section \<open>The total strain accumulators\<close>

lemma example_zero_run:
  "computeQpStress (example_beam 1 200 0 (1 / 10 ^ 10) (1 / 10 ^ 8)) 1 0
     (example_props 0 0 0 0) (example_props 0 0 0 0) =
   Inr \<lparr> direct_stress = (\<lambda>_. 0)(0 := 0),
         plastic_strain = (\<lambda>_. 0)(0 := 0),
         hardening_variable = (\<lambda>_. 0)(0 := 0),
         stres = 0 \<rparr>"
  unfolding computeQpStress_def
  apply (subst layers_loop.simps)
  apply (subst layers_loop.simps)
  apply (simp add: layer_def Let_def example_props_def)
  done

text \<open>
  C2.  The current total rotation strain is computed from the old total displacement
  strain (line 405), not from the old total rotation strain: with zero increments, old
  total displacement strain (1, 0, 0) and old total rotation strain (0, 0, 0), the
  rotation-strain increment is (0, 0, 0) and the call stores (1, 0, 0) as the total
  rotation strain, where the claim gives (0, 0, 0).
\<close>

theorem total_rot_strain_adds_disp_strain_old:
  "total_disp_strain_old (example_input (1, 0, 0) (0, 0, 0) (example_props 0 0 0 0)) = (1, 0, 0) \<and>
   total_rot_strain_old (example_input (1, 0, 0) (0, 0, 0) (example_props 0 0 0 0)) = (0, 0, 0) \<and>
   map_sum id (\<lambda>out. (mech_rot_strain_increment out, total_rot_strain out))
     (computeQpStrain (example_beam 1 200 0 (1 / 10 ^ 10) (1 / 10 ^ 8))
        (example_input (1, 0, 0) (0, 0, 0) (example_props 0 0 0 0)))
   = Inr ((0, 0, 0), (1, 0, 0))"
proof -
  let ?B = "example_beam 1 200 0 (1 / 10 ^ 10) (1 / 10 ^ 8)"
  let ?I = "example_input (1, 0, 0) (0, 0, 0) (example_props 0 0 0 0)"
  from example_call [OF example_zero_run, of "(1, 0, 0)" "(0, 0, 0)"]
  obtain out where out: "computeQpStrain ?B ?I = Inr out" by blast
  from computeQpStrain_Inr(5,6) [OF out]
  have "total_rot_strain out = (1, 0, 0)" "mech_rot_strain_increment out = (0, 0, 0)"
    by simp_all
  with out show ?thesis by simp
qed

section \<open>The constructor's checks\<close>

lemma positive_first_moment_rejected:
  assumes "p_large_strain p" and "p_displacements p = p_rotations p"
    and "p_Ay p 0 > 0 \<or> p_Ay p 1 > 0 \<or> p_Az p 0 > 0 \<or> p_Az p 1 > 0"
  shows "LayeredBeam p = Inl (mooseError AsymmetricLargeStrain)"
  using assms by (simp add: LayeredBeam_def)

text \<open>
  C5.  The check of the constructor tests the first moments with \<open>> 0.0\<close>: with
  \<open>large_strain = true\<close> and \<open>Ay = -1\<close> at both nodes the construction succeeds, while
  \<open>Ay = 1\<close> is rejected with the error that speaks of non-zero first moments.
\<close>

theorem negative_first_moment_accepted:
  "p_large_strain (example_parameters True (- 1)) \<and>
   p_Ay (example_parameters True (- 1)) 0 = - 1 \<and>
   \<not> isl (LayeredBeam (example_parameters True (- 1))) \<and>
   LayeredBeam (example_parameters True 1) = Inl (mooseError AsymmetricLargeStrain)"
  by (simp add: LayeredBeam_def example_parameters_def)

section \<open>The effective stiffness\<close>

lemma example_prefactor_run:
  "computeQpStress ((example_beam 1 200 0 (1 / 10 ^ 10) (1 / 10 ^ 8))
        \<lparr> prefactor_function := Some \<lparr> fn_value = (\<lambda>t p. 4), fn_timeDerivative = (\<lambda>t p. 0) \<rparr> \<rparr>) 1 0
     (example_props 0 0 0 0) (example_props 0 0 0 0) =
   Inr \<lparr> direct_stress = (\<lambda>_. 0)(0 := 0),
         plastic_strain = (\<lambda>_. 0)(0 := 0),
         hardening_variable = (\<lambda>_. 0)(0 := 0),
         stres = 0 \<rparr>"
  unfolding computeQpStress_def
  apply (subst layers_loop.simps)
  apply (subst layers_loop.simps)
  apply (simp add: layer_def Let_def example_props_def example_beam_def)
  done

text \<open>
  C8 (as amended).  The effective stiffness of a call that returns is the formula of the
  specification, and with a prefactor function it is scaled by the square root of the
  function's value at the current time and the position of the quadrature point.
\<close>

theorem effective_stiffness_prefactor_sqrt:
  assumes "computeQpStrain B I = Inr out"
  shows "effective_stiffness out =
           spec_effective_stiffness (fst (material_stiffness I)) (fst (snd (material_stiffness I)))
             (original_length I) ((area B 0 + area B 1) / 2) ((Iz B 0 + Iz B 1) / 2)
           * (case prefactor_function B of
                None \<Rightarrow> 1
              | Some f \<Rightarrow> sqrt (fn_value f (cur_time I) (q_point I)))"
  using computeQpStrain_Inr(3) [OF assms]
  by (simp add: effective_stiffness_of_def spec_effective_stiffness_def Let_def split: option.splits)

theorem effective_stiffness_prefactor_sqrt_witness:
  "\<exists>out. computeQpStrain ((example_beam 1 200 0 (1 / 10 ^ 10) (1 / 10 ^ 8))
        \<lparr> prefactor_function := Some \<lparr> fn_value = (\<lambda>t p. 4), fn_timeDerivative = (\<lambda>t p. 0) \<rparr> \<rparr>)
        (example_input (0, 0, 0) (0, 0, 0) (example_props 0 0 0 0)) = Inr out \<and>
      effective_stiffness out = spec_effective_stiffness 4 1 1 1 1 * sqrt 4"
proof -
  let ?B = "(example_beam 1 200 0 (1 / 10 ^ 10) (1 / 10 ^ 8))
        \<lparr> prefactor_function := Some \<lparr> fn_value = (\<lambda>t p. 4), fn_timeDerivative = (\<lambda>t p. 0) \<rparr> \<rparr>"
  let ?I = "example_input (0, 0, 0) (0, 0, 0) (example_props 0 0 0 0)"
  from example_call [OF example_prefactor_run, of "(0, 0, 0)" "(0, 0, 0)"]
  obtain out where out: "computeQpStrain ?B ?I = Inr out" by blast
  from effective_stiffness_prefactor_sqrt [OF out] out show ?thesis
    by auto
qed

text \<open>
  The claim as stated (scaled by the function's value) fails for a prefactor of 4: the
  unscaled value is 2, the call stores 4, and the claim gives 8.
\<close>

theorem prefactor_value_counterexample:
  "map_sum id effective_stiffness
     (computeQpStrain ((example_beam 1 200 0 (1 / 10 ^ 10) (1 / 10 ^ 8))
        \<lparr> prefactor_function := Some \<lparr> fn_value = (\<lambda>t p. 4), fn_timeDerivative = (\<lambda>t p. 0) \<rparr> \<rparr>)
        (example_input (0, 0, 0) (0, 0, 0) (example_props 0 0 0 0)))
   = Inr 4 \<and>
   spec_effective_stiffness 4 1 1 ((1 + 1) / 2) ((1 + 1) / 2) * 4 = 8"
proof -
  let ?B = "(example_beam 1 200 0 (1 / 10 ^ 10) (1 / 10 ^ 8))
        \<lparr> prefactor_function := Some \<lparr> fn_value = (\<lambda>t p. 4), fn_timeDerivative = (\<lambda>t p. 0) \<rparr> \<rparr>"
  let ?I = "example_input (0, 0, 0) (0, 0, 0) (example_props 0 0 0 0)"
  from example_call [OF example_prefactor_run, of "(0, 0, 0)" "(0, 0, 0)"]
  obtain out where out: "computeQpStrain ?B ?I = Inr out" by blast
  from computeQpStrain_Inr(3) [OF out]
  have "effective_stiffness out = 4"
    by (simp add: effective_stiffness_of_def Let_def)
  moreover have "spec_effective_stiffness 4 1 1 ((1 + 1) / 2) ((1 + 1) / 2) * 4 = 8"
    by (simp add: spec_effective_stiffness_def Let_def)
  ultimately show ?thesis using out by simp
qed


section \<open>Large-strain stiffness\<close>

text \<open>
  The quadratic strain terms treat the two transverse axes alike: exchanging the axes in
  the gradients, the average rotation and the section exchanges the components of the
  terms in the same way.
\<close>

lemma large_strain_terms_exchange:
  "large_strain_terms (exchange_section B) q Ix_q (exchange_axes gd) (exchange_axes gr) (exchange_axes ar) =
     (exchange_axes (fst (large_strain_terms B q Ix_q gd gr ar)),
      exchange_axes (snd (large_strain_terms B q Ix_q gd gr ar)))"
  by (cases gd; cases gr; cases ar)
     (simp add: large_strain_terms_def exchange_axes_def exchange_section_def algebra_simps)

lemma example_large_run:
  "computeQpStress example_large_beam 1 0
     (example_props 0 0 0 0) (example_props 0 0 0 0) =
   Inr \<lparr> direct_stress = (\<lambda>_. 0)(0 := 0),
         plastic_strain = (\<lambda>_. 0)(0 := 0),
         hardening_variable = (\<lambda>_. 0)(0 := 0),
         stres = 0 \<rparr>"
  unfolding computeQpStress_def example_large_beam_def
  apply (subst layers_loop.simps)
  apply (subst layers_loop.simps)
  apply (simp add: layer_def Let_def example_props_def example_beam_def)
  done

lemma example_stretch_gradients:
  "local_gradients example_stretch_input = ((1 / 10, 0, 0), (0, 0, 0), (0, 0, 0))"
  by (simp add: local_gradients_def example_stretch_input_def)

lemma example_stretch_call:
  "\<exists>out. computeQpStrain example_large_beam example_stretch_input = Inr out \<and>
         grad_disp_0_local_t out = (1 / 10, 0, 0) \<and>
         grad_rot_0_local_t out = (0, 0, 0) \<and>
         avg_rot_local_t out = (0, 0, 0)"
proof -
  let ?I = "example_stretch_input"
  let ?B = "example_large_beam"
  have "computeQpStress ?B (snd (snd (material_flexure ?I)))
            (snd (snd (fst (snd (local_gradients ?I))))) (old_props ?I) (cur_props ?I)
        = Inr \<lparr> direct_stress = (\<lambda>_. 0)(0 := 0),
         plastic_strain = (\<lambda>_. 0)(0 := 0),
         hardening_variable = (\<lambda>_. 0)(0 := 0),
         stres = 0 \<rparr>"
    using example_large_run by (simp add: example_stretch_gradients) (simp add: example_stretch_input_def)
  then obtain out where out: "computeQpStrain ?B ?I = Inr out"
    using computeQpStrain_returns by blast
  then have "grad_disp_0_local_t out = (1 / 10, 0, 0) \<and>
         grad_rot_0_local_t out = (0, 0, 0) \<and>
         avg_rot_local_t out = (0, 0, 0)"
    by (auto simp: computeQpStrain_def example_stretch_gradients Let_def split: sum.splits prod.splits)
  with out show ?thesis by blast
qed

lemma example_twist_gradients:
  "local_gradients example_twist_input = ((0, 0, 0), (0, 0, 0), (1 / 10, 0, 0))"
  by (simp add: local_gradients_def example_twist_input_def)

lemma example_twist_call:
  "\<exists>out. computeQpStrain example_large_beam example_twist_input = Inr out \<and>
         grad_disp_0_local_t out = (0, 0, 0) \<and>
         grad_rot_0_local_t out = (0, 0, 0) \<and>
         avg_rot_local_t out = (1 / 10, 0, 0)"
proof -
  let ?I = "example_twist_input"
  let ?B = "example_large_beam"
  have "computeQpStress ?B (snd (snd (material_flexure ?I)))
            (snd (snd (fst (snd (local_gradients ?I))))) (old_props ?I) (cur_props ?I)
        = Inr \<lparr> direct_stress = (\<lambda>_. 0)(0 := 0),
         plastic_strain = (\<lambda>_. 0)(0 := 0),
         hardening_variable = (\<lambda>_. 0)(0 := 0),
         stres = 0 \<rparr>"
    using example_large_run by (simp add: example_twist_gradients) (simp add: example_twist_input_def)
  then obtain out where out: "computeQpStrain ?B ?I = Inr out"
    using computeQpStrain_returns by blast
  then have "grad_disp_0_local_t out = (0, 0, 0) \<and>
         grad_rot_0_local_t out = (0, 0, 0) \<and>
         avg_rot_local_t out = (1 / 10, 0, 0)"
    by (auto simp: computeQpStrain_def example_twist_gradients Let_def split: sum.splits prod.splits)
  with out show ?thesis by blast
qed

text \<open>
  C10.  The stiffness corrections do not treat the two transverse axes alike, as a
  derivative of the strain terms would.  For the large-strain section with \<open>Iy = Iz\<close> and
  a purely axial displacement gradient 1/10 (an input that the exchange of the axes
  leaves unchanged) the two bending entries of \<open>K22\<close> differ by 1/6400: entry (1,1) of
  \<open>k3_large_22\<close> is never assigned, the lines under "col2" assign entry (2,2), which
  "col3" assigns again.
\<close>

theorem stiffness_correction_unequal_bending_entries:
  "large_strain example_large_beam \<and>
   exchange_section example_large_beam = example_large_beam \<and>
   map_sum id (\<lambda>out. exchange_axes (grad_disp_0_local_t out) = grad_disp_0_local_t out \<and>
                      exchange_axes (grad_rot_0_local_t out) = grad_rot_0_local_t out \<and>
                      exchange_axes (avg_rot_local_t out) = avg_rot_local_t out)
     (computeQpStrain example_large_beam example_stretch_input) = Inr True \<and>
   map_sum id (\<lambda>out. K22 (computeStiffnessMatrix example_large_beam example_stretch_input out))
     (computeQpStrain example_large_beam example_stretch_input) =
   Inr ((801 / 400, 0, 0), (0, 17 / 4 + 3 / 800, 0), (0, 0, 17 / 4 + 3 / 800 + 1 / 6400))"
proof -
  from example_stretch_call obtain out
    where out: "computeQpStrain example_large_beam example_stretch_input = Inr out"
      and g: "grad_disp_0_local_t out = (1 / 10, 0, 0)" "grad_rot_0_local_t out = (0, 0, 0)"
        "avg_rot_local_t out = (0, 0, 0)"
    by blast
  have "K22 (computeStiffnessMatrix example_large_beam example_stretch_input out) =
        ((801 / 400, 0, 0), (0, 17 / 4 + 3 / 800, 0), (0, 0, 17 / 4 + 3 / 800 + 1 / 6400))"
    by (simp add: computeStiffnessMatrix_def g Let_def example_large_beam_def
        example_stretch_input_def to_global_def k1_large_22_def k2_large_22_def k3_large_22_def
        k4_large_22_def power2_eq_square)
  moreover have "exchange_section example_large_beam = example_large_beam"
    by (simp add: exchange_section_def example_large_beam_def example_beam_def)
  ultimately show ?thesis using out g
    by (simp add: example_large_beam_def exchange_axes_def)
qed

text \<open>
  The two shear entries of \<open>K11\<close> differ in the same way when both nodes turn by 1/10
  about the beam axis: entry (1,1) of \<open>k2_large_11\<close> is \<open>0.25 * avg_rot(0)\<close>, entry (2,2)
  is \<open>0.25 * avg_rot(0)^2\<close>.
\<close>

lemma stiffness_correction_unequal_shear_entries:
  "map_sum id (\<lambda>out. K11 (computeStiffnessMatrix example_large_beam example_twist_input out))
     (computeQpStrain example_large_beam example_twist_input) =
   Inr ((4, 0, 0), (0, 1 + 1 / 160, 0), (0, 0, 1 + 1 / 1600))"
proof -
  from example_twist_call obtain out
    where out: "computeQpStrain example_large_beam example_twist_input = Inr out"
      and g: "grad_disp_0_local_t out = (0, 0, 0)" "grad_rot_0_local_t out = (0, 0, 0)"
        "avg_rot_local_t out = (1 / 10, 0, 0)"
    by blast
  have "K11 (computeStiffnessMatrix example_large_beam example_twist_input out) =
        ((4, 0, 0), (0, 1 + 1 / 160, 0), (0, 0, 1 + 1 / 1600))"
    by (simp add: computeStiffnessMatrix_def g Let_def example_large_beam_def
        example_twist_input_def to_global_def k1_large_11_def k2_large_11_def power2_eq_square)
  with out show ?thesis by simp
qed

end
